theory Spec2Isabelle
  imports Complex_Main "HOL-Library.Word"
begin

unbundle bit_operations_syntax

section \<open>Data model of RigidBody.cpp\<close>

text \<open>
  The component \<open>RigidBody\<close> wraps one simulated body of the physics library and keeps
  it consistent with a scene node. A C++ \<open>float\<close> is modelled by the real number it
  denotes. The values are compared, selected and stored exactly (\<open>mass > 0.0f\<close>,
  \<open>Max(mass, 0.0f)\<close>, \<open>force != Vector3::ZERO\<close>); the only arithmetic of the file is
  the componentwise \<open>+\<close> and \<open>-\<close> of vectors, and each of these is rounded to the
  nearest value of the binary32 format, as the machine does. NaN, the negative zero and
  overflow to infinity are outside the model. A member \<open>name_\<close> of the class is the
  field \<open>name\<close> of the record, since an Isabelle name cannot end in an underscore.
\<close>

subsection \<open>Arithmetic of \<open>float\<close>\<close>

text \<open>Rounding of a real number to an integer, a tie going to the even neighbour.\<close>

definition roundHalfEven :: "real \<Rightarrow> int" where
  "roundHalfEven y =
     (let f = \<lfloor>y\<rfloor>
      in if y - of_int f < 1 / 2 then f
         else if y - of_int f > 1 / 2 then f + 1
         else if even f then f else f + 1)"

text \<open>The spacing of the binary32 values around a magnitude \<open>a\<close>: the values with
  spacing \<open>u\<close> are the multiples of \<open>u\<close> below \<open>2^24 * u\<close> (24 significant bits). The
  search starts at the spacing \<open>2^-149\<close> of the subnormal values and doubles it; the
  largest spacing of the format is \<open>2^104\<close>, 253 doublings later.\<close>

function ulpOf :: "nat \<Rightarrow> real \<Rightarrow> real \<Rightarrow> real" where
  "ulpOf k u a = (if 253 \<le> k \<or> a < 16777216 * u then u else ulpOf (k + 1) (2 * u) a)"
  by pat_completeness auto
termination
  by (relation "measure (\<lambda>(k, u, a). 253 - k)") auto

declare ulpOf.simps [simp del]

text \<open>The result of a \<open>float\<close> operation whose exact result is \<open>x\<close>: the nearest
  multiple of the spacing at \<open>x\<close> (round to nearest, ties to even, the default rounding
  of IEEE 754).\<close>

definition roundToFloat :: "real \<Rightarrow> real" where
  "roundToFloat x =
     (if x = 0 then 0
      else let u = ulpOf 0 (1 / 2 ^ 149) \<bar>x\<bar>
           in u * of_int (roundHalfEven (x / u)))"

text \<open>The real numbers that are values of the format.\<close>

definition isFloat :: "real \<Rightarrow> bool" where
  "isFloat x = (roundToFloat x = x)"

definition fadd :: "real \<Rightarrow> real \<Rightarrow> real" where
  "fadd x y = roundToFloat (x + y)"

definition fsub :: "real \<Rightarrow> real \<Rightarrow> real" where
  "fsub x y = roundToFloat (x - y)"

subsection \<open>Vectors, transforms and the simulated body\<close>

datatype Vector3 = Vector3 real real real

datatype Quaternion = Quaternion real real real real

definition ZERO :: Vector3 where
  "ZERO = Vector3 0 0 0"

definition IDENTITY :: Quaternion where
  "IDENTITY = Quaternion 1 0 0 0"

text \<open>\<open>operator +\<close> and \<open>operator -\<close> of \<open>Vector3\<close> (and of \<open>btVector3\<close>): one \<open>float\<close>
  operation per component.\<close>

fun vadd :: "Vector3 \<Rightarrow> Vector3 \<Rightarrow> Vector3" where
  "vadd (Vector3 a b c) (Vector3 d e f) = Vector3 (fadd a d) (fadd b e) (fadd c f)"

fun vsub :: "Vector3 \<Rightarrow> Vector3 \<Rightarrow> Vector3" where
  "vsub (Vector3 a b c) (Vector3 d e f) = Vector3 (fsub a d) (fsub b e) (fsub c f)"

text \<open>A vector all of whose components are values of the format.\<close>

fun isFloatVector :: "Vector3 \<Rightarrow> bool" where
  "isFloatVector (Vector3 a b c) = (isFloat a \<and> isFloat b \<and> isFloat c)"

text \<open>\<open>Max(x, 0.0f)\<close> of MathDefs.h, the larger of the two.\<close>

definition MaxF :: "real \<Rightarrow> real \<Rightarrow> real" where
  "MaxF lhs rhs = (if lhs > rhs then lhs else rhs)"

type_synonym shape = nat
type_synonym constraint = nat

record btTransform =
  origin :: Vector3
  rotation :: Quaternion

text \<open>One entry of a \<open>btCompoundShape\<close>: the child's local transform and the identity of
  the child shape (a pointer in the source).\<close>

record child =
  m_transform :: btTransform
  m_childShape :: shape

text \<open>What \<open>body->setCollisionShape\<close> was given: the shifted compound shape itself or
  one child shape of it.\<close>

datatype collisionShape = CompoundShape | ChildShape shape

text \<open>The simulated body (\<open>btRigidBody\<close>) as the record of the properties that the
  wrapper reads and writes through the body's accessors. State that the solver derives
  from them (inverse mass, world inertia tensor, accumulated forces) is not kept.\<close>

record btRigidBody =
  m_worldTransform :: btTransform
  m_interpolationWorldTransform :: btTransform
  m_linearVelocity :: Vector3
  m_angularVelocity :: Vector3
  m_linearFactor :: Vector3
  m_angularFactor :: Vector3
  m_linearDamping :: real
  m_angularDamping :: real
  m_linearSleepingThreshold :: real
  m_angularSleepingThreshold :: real
  m_friction :: real
  m_rollingFriction :: real
  m_restitution :: real
  m_contactProcessingThreshold :: real
  m_ccdSweptSphereRadius :: real
  m_ccdMotionThreshold :: real
  m_gravity :: Vector3
  m_rigidbodyFlags :: "32 word"
  m_collisionFlags :: "32 word"
  m_collisionShape :: collisionShape
  m_mass :: real
  m_localInertia :: Vector3
  m_active :: bool

text \<open>Calls into the solver whose effect on the body is the solver's business.\<close>

datatype solverCall =
    applyCentralForce Vector3
  | applyForce Vector3 Vector3
  | applyTorque Vector3
  | applyCentralImpulse Vector3
  | applyImpulse Vector3 Vector3
  | applyTorqueImpulse Vector3
  | clearForces

text \<open>Calls that leave the component, in the order they are made: wake requests, solver
  inputs, world membership, notifications to collaborators. Plain property writes are
  visible in the body record and are not listed.\<close>

datatype call =
    activate
  | Solver solverCall
  | updateInertiaTensor
  | addRigidBody "32 word" "32 word"
  | removeRigidBody
  | MarkNetworkUpdate
  | ApplyFrames constraint
  | CreateConstraint constraint
  | ReleaseConstraint constraint
  | SubscribeToEvent string
  | AddRigidBody
  | AddListener
  | Log string
  | AddDelayedWorldTransform Vector3 Quaternion
  | SetTargetWorldPosition Vector3
  | SetTargetWorldRotation Quaternion
  | DelayedMarkedDirty

text \<open>The parts of the engine and of the physics library that RigidBody.cpp calls and
  that live in other files: they are parameters of the model, and every theorem below
  holds for each choice of them.\<close>

record externals =
  rotate :: "Quaternion \<Rightarrow> Vector3 \<Rightarrow> Vector3"
  vecEquals :: "Vector3 \<Rightarrow> Vector3 \<Rightarrow> bool"
  quatEquals :: "Quaternion \<Rightarrow> Quaternion \<Rightarrow> bool"
  calculatePrincipalAxisTransform :: "real list \<Rightarrow> child list \<Rightarrow> Vector3"
  calculateLocalInertia :: "child list \<Rightarrow> real \<Rightarrow> Vector3"
  getShapeType :: "shape \<Rightarrow> int"
  SCALED_TRIANGLE_MESH_SHAPE_PROXYTYPE :: int
  BT_DISABLE_WORLD_GRAVITY :: "32 word"
  CF_NO_CONTACT_RESPONSE :: "32 word"
  CF_KINEMATIC_OBJECT :: "32 word"
  CF_CUSTOM_MATERIAL_CALLBACK :: "32 word"
  newRigidBody :: "real \<Rightarrow> collisionShape \<Rightarrow> Vector3 \<Rightarrow> btRigidBody"
  solverApply :: "solverCall \<Rightarrow> btRigidBody \<Rightarrow> btRigidBody"
  getVelocityInLocalPoint :: "btRigidBody \<Rightarrow> Vector3 \<Rightarrow> Vector3"

text \<open>The physics world as far as this file uses it: its gravity, its internal-edge
  switch, the reentrancy flag, and the filter under which this body is registered in
  the dynamics world, if it is.\<close>

record PhysicsWorld =
  worldGravity :: Vector3
  internalEdge :: bool
  applyingTransforms :: bool
  registered :: "(32 word \<times> 32 word) option"

text \<open>The scene node as far as this file uses it. Modelled from the spec: the node and
  its components are collaborators outside this file; the node holds a world position
  and rotation, which it gives back as they were set, is enabled or not, may hang under
  a parent (other than the scene) that carries a rigid body, and carries the shape,
  constraint and smoothing components that the rebuild looks up.\<close>

record Node =
  worldPosition :: Vector3
  worldRotation :: Quaternion
  nodeEnabled :: bool
  parentRigidBody :: bool
  nodeShapes :: "child list"
  nodeConstraints :: "constraint list"
  nodeSmoothedTransform :: bool

datatype CollisionEventMode = COLLISION_NEVER | COLLISION_ACTIVE | COLLISION_ALWAYS

record RigidBody =
  body :: "btRigidBody option"
  compoundShape :: "child list"
  shiftedCompoundShape :: "child list"
  gravityOverride :: Vector3
  centerOfMass :: Vector3
  mass :: real
  collisionLayer :: "32 word"
  collisionMask :: "32 word"
  collisionEventMode :: CollisionEventMode
  lastPosition :: Vector3
  lastRotation :: Quaternion
  kinematic :: bool
  phantom :: bool
  useGravity :: bool
  hasSmoothedTransform :: bool
  readdBody :: bool
  inWorld :: bool
  constraints :: "constraint list"
  physicsWorld :: "PhysicsWorld option"
  node :: "Node option"
  enabled :: bool
  calls :: "call list"

text \<open>The constructor: no body, no world, no node, both aggregates empty.\<close>

definition RigidBody_new :: RigidBody where
  "RigidBody_new = \<lparr>
     body = None, compoundShape = [], shiftedCompoundShape = [],
     gravityOverride = ZERO, centerOfMass = ZERO, mass = 0,
     collisionLayer = 1, collisionMask = - 1,
     collisionEventMode = COLLISION_ACTIVE,
     lastPosition = ZERO, lastRotation = IDENTITY,
     kinematic = False, phantom = False, useGravity = True,
     hasSmoothedTransform = False, readdBody = False, inWorld = False,
     constraints = [], physicsWorld = None, node = None, enabled = True,
     calls = [] \<rparr>"

text \<open>Modelled from the spec: \<open>Component::IsEnabledEffective\<close> is not in this file; the
  entity is enabled when its own flag is set and it sits on an enabled node.\<close>

definition IsEnabledEffective :: "RigidBody \<Rightarrow> bool" where
  "IsEnabledEffective s =
     (enabled s \<and> (case node s of None \<Rightarrow> False | Some n \<Rightarrow> nodeEnabled n))"

definition emit :: "call \<Rightarrow> RigidBody \<Rightarrow> RigidBody" where
  "emit c s = s\<lparr>calls := calls s @ [c]\<rparr>"

section \<open>Activation and the live setters\<close>

text \<open>\<open>Activate\<close>: \<open>if (body_ && mass_ > 0.0f) body_->activate(true)\<close>. The request
  is recorded in the call log. Modelled from the spec: \<open>btRigidBody::activate\<close> is the
  physics library's; with the argument \<open>true\<close> it leaves the body awake, which is what
  \<open>isActive\<close> reads afterwards.\<close>

definition Activate :: "RigidBody \<Rightarrow> RigidBody" where
  "Activate s =
     (case body s of
        None \<Rightarrow> s
      | Some b \<Rightarrow>
          if mass s > 0
          then emit activate (s\<lparr>body := Some (b\<lparr>m_active := True\<rparr>)\<rparr>)
          else s)"

definition GetPosition :: "externals \<Rightarrow> RigidBody \<Rightarrow> Vector3" where
  "GetPosition X s =
     (case body s of
        Some b \<Rightarrow>
          vsub (origin (m_worldTransform b))
               (rotate X (rotation (m_worldTransform b)) (centerOfMass s))
      | None \<Rightarrow> ZERO)"

definition SetPosition :: "externals \<Rightarrow> Vector3 \<Rightarrow> RigidBody \<Rightarrow> RigidBody" where
  "SetPosition X position s =
     (case body s of
        None \<Rightarrow> s
      | Some b \<Rightarrow>
          let worldTrans = (m_worldTransform b)\<lparr>origin :=
                 vadd position (rotate X (rotation (m_worldTransform b)) (centerOfMass s))\<rparr>;
              interpTrans = (m_interpolationWorldTransform b)\<lparr>origin := origin worldTrans\<rparr>;
              b' = b\<lparr>m_worldTransform := worldTrans,
                     m_interpolationWorldTransform := interpTrans\<rparr>
          in emit MarkNetworkUpdate
               (Activate (emit updateInertiaTensor (s\<lparr>body := Some b'\<rparr>))))"

definition SetRotation :: "externals \<Rightarrow> Quaternion \<Rightarrow> RigidBody \<Rightarrow> RigidBody" where
  "SetRotation X rot s =
     (case body s of
        None \<Rightarrow> s
      | Some b \<Rightarrow>
          let oldPosition = GetPosition X s;
              shifted = \<not> vecEquals X (centerOfMass s) ZERO;
              wt1 = (m_worldTransform b)\<lparr>rotation := rot\<rparr>;
              worldTrans = (if shifted
                 then wt1\<lparr>origin := vadd oldPosition (rotate X rot (centerOfMass s))\<rparr>
                 else wt1);
              it1 = (m_interpolationWorldTransform b)\<lparr>rotation := rotation worldTrans\<rparr>;
              interpTrans = (if shifted then it1\<lparr>origin := origin worldTrans\<rparr> else it1);
              b' = b\<lparr>m_worldTransform := worldTrans,
                     m_interpolationWorldTransform := interpTrans\<rparr>
          in emit MarkNetworkUpdate
               (Activate (emit updateInertiaTensor (s\<lparr>body := Some b'\<rparr>))))"

definition SetTransform :: "externals \<Rightarrow> Vector3 \<Rightarrow> Quaternion \<Rightarrow> RigidBody \<Rightarrow> RigidBody" where
  "SetTransform X position rot s =
     (case body s of
        None \<Rightarrow> s
      | Some b \<Rightarrow>
          let worldTrans = (m_worldTransform b)\<lparr>rotation := rot,
                 origin := vadd position (rotate X rot (centerOfMass s))\<rparr>;
              interpTrans = (m_interpolationWorldTransform b)\<lparr>origin := origin worldTrans,
                 rotation := rotation worldTrans\<rparr>;
              b' = b\<lparr>m_worldTransform := worldTrans,
                     m_interpolationWorldTransform := interpTrans\<rparr>
          in emit MarkNetworkUpdate
               (Activate (emit updateInertiaTensor (s\<lparr>body := Some b'\<rparr>))))"

definition SetLinearVelocity :: "Vector3 \<Rightarrow> RigidBody \<Rightarrow> RigidBody" where
  "SetLinearVelocity velocity s =
     (case body s of
        None \<Rightarrow> s
      | Some b \<Rightarrow>
          let s1 = s\<lparr>body := Some (b\<lparr>m_linearVelocity := velocity\<rparr>)\<rparr>;
              s2 = (if velocity \<noteq> ZERO then Activate s1 else s1)
          in emit MarkNetworkUpdate s2)"

definition SetAngularVelocity :: "Vector3 \<Rightarrow> RigidBody \<Rightarrow> RigidBody" where
  "SetAngularVelocity velocity s =
     (case body s of
        None \<Rightarrow> s
      | Some b \<Rightarrow>
          let s1 = s\<lparr>body := Some (b\<lparr>m_angularVelocity := velocity\<rparr>)\<rparr>;
              s2 = (if velocity \<noteq> ZERO then Activate s1 else s1)
          in emit MarkNetworkUpdate s2)"

text \<open>The setters that write one property of the body and mark the component for a
  network update share this shape: \<open>if (body) { body->set...; MarkNetworkUpdate(); }\<close>.\<close>

definition onBody :: "(btRigidBody \<Rightarrow> btRigidBody) \<Rightarrow> RigidBody \<Rightarrow> RigidBody" where
  "onBody f s =
     (case body s of
        None \<Rightarrow> s
      | Some b \<Rightarrow> emit MarkNetworkUpdate (s\<lparr>body := Some (f b)\<rparr>))"

definition SetLinearFactor :: "Vector3 \<Rightarrow> RigidBody \<Rightarrow> RigidBody" where
  "SetLinearFactor factor s = onBody (\<lambda>b. b\<lparr>m_linearFactor := factor\<rparr>) s"

definition SetAngularFactor :: "Vector3 \<Rightarrow> RigidBody \<Rightarrow> RigidBody" where
  "SetAngularFactor factor s = onBody (\<lambda>b. b\<lparr>m_angularFactor := factor\<rparr>) s"

definition SetLinearRestThreshold :: "real \<Rightarrow> RigidBody \<Rightarrow> RigidBody" where
  "SetLinearRestThreshold threshold s =
     onBody (\<lambda>b. b\<lparr>m_linearSleepingThreshold := threshold,
                    m_angularSleepingThreshold := m_angularSleepingThreshold b\<rparr>) s"

definition SetAngularRestThreshold :: "real \<Rightarrow> RigidBody \<Rightarrow> RigidBody" where
  "SetAngularRestThreshold threshold s =
     onBody (\<lambda>b. b\<lparr>m_linearSleepingThreshold := m_linearSleepingThreshold b,
                    m_angularSleepingThreshold := threshold\<rparr>) s"

definition SetLinearDamping :: "real \<Rightarrow> RigidBody \<Rightarrow> RigidBody" where
  "SetLinearDamping damping s =
     onBody (\<lambda>b. b\<lparr>m_linearDamping := damping, m_angularDamping := m_angularDamping b\<rparr>) s"

definition SetAngularDamping :: "real \<Rightarrow> RigidBody \<Rightarrow> RigidBody" where
  "SetAngularDamping damping s =
     onBody (\<lambda>b. b\<lparr>m_linearDamping := m_linearDamping b, m_angularDamping := damping\<rparr>) s"

definition SetFriction :: "real \<Rightarrow> RigidBody \<Rightarrow> RigidBody" where
  "SetFriction friction s = onBody (\<lambda>b. b\<lparr>m_friction := friction\<rparr>) s"

definition SetRollingFriction :: "real \<Rightarrow> RigidBody \<Rightarrow> RigidBody" where
  "SetRollingFriction friction s = onBody (\<lambda>b. b\<lparr>m_rollingFriction := friction\<rparr>) s"

definition SetRestitution :: "real \<Rightarrow> RigidBody \<Rightarrow> RigidBody" where
  "SetRestitution restitution s = onBody (\<lambda>b. b\<lparr>m_restitution := restitution\<rparr>) s"

definition SetContactProcessingThreshold :: "real \<Rightarrow> RigidBody \<Rightarrow> RigidBody" where
  "SetContactProcessingThreshold threshold s =
     onBody (\<lambda>b. b\<lparr>m_contactProcessingThreshold := threshold\<rparr>) s"

definition SetCcdRadius :: "real \<Rightarrow> RigidBody \<Rightarrow> RigidBody" where
  "SetCcdRadius radius s =
     (let radius = MaxF radius 0 in onBody (\<lambda>b. b\<lparr>m_ccdSweptSphereRadius := radius\<rparr>) s)"

definition SetCcdMotionThreshold :: "real \<Rightarrow> RigidBody \<Rightarrow> RigidBody" where
  "SetCcdMotionThreshold threshold s =
     (let threshold = MaxF threshold 0
      in onBody (\<lambda>b. b\<lparr>m_ccdMotionThreshold := threshold\<rparr>) s)"

definition SetCollisionEventMode :: "CollisionEventMode \<Rightarrow> RigidBody \<Rightarrow> RigidBody" where
  "SetCollisionEventMode mode s = emit MarkNetworkUpdate (s\<lparr>collisionEventMode := mode\<rparr>)"

section \<open>Forces and impulses\<close>

text \<open>\<open>body->apply...(...)\<close>: the call is recorded and the solver's response to it is
  the parameter \<open>solverApply\<close>.\<close>

definition solve :: "externals \<Rightarrow> solverCall \<Rightarrow> RigidBody \<Rightarrow> RigidBody" where
  "solve X c s =
     (case body s of
        None \<Rightarrow> s
      | Some b \<Rightarrow> emit (Solver c) (s\<lparr>body := Some (solverApply X c b)\<rparr>))"

definition ApplyForce :: "externals \<Rightarrow> Vector3 \<Rightarrow> RigidBody \<Rightarrow> RigidBody" where
  "ApplyForce X force s =
     (if body s \<noteq> None \<and> force \<noteq> ZERO
      then solve X (applyCentralForce force) (Activate s) else s)"

definition ApplyForceAt :: "externals \<Rightarrow> Vector3 \<Rightarrow> Vector3 \<Rightarrow> RigidBody \<Rightarrow> RigidBody" where
  "ApplyForceAt X force position s =
     (if body s \<noteq> None \<and> force \<noteq> ZERO
      then solve X (applyForce force (vsub position (centerOfMass s))) (Activate s) else s)"

definition ApplyTorque :: "externals \<Rightarrow> Vector3 \<Rightarrow> RigidBody \<Rightarrow> RigidBody" where
  "ApplyTorque X torque s =
     (if body s \<noteq> None \<and> torque \<noteq> ZERO
      then solve X (applyTorque torque) (Activate s) else s)"

definition ApplyImpulse :: "externals \<Rightarrow> Vector3 \<Rightarrow> RigidBody \<Rightarrow> RigidBody" where
  "ApplyImpulse X impulse s =
     (if body s \<noteq> None \<and> impulse \<noteq> ZERO
      then solve X (applyCentralImpulse impulse) (Activate s) else s)"

definition ApplyImpulseAt :: "externals \<Rightarrow> Vector3 \<Rightarrow> Vector3 \<Rightarrow> RigidBody \<Rightarrow> RigidBody" where
  "ApplyImpulseAt X impulse position s =
     (if body s \<noteq> None \<and> impulse \<noteq> ZERO
      then solve X (applyImpulse impulse (vsub position (centerOfMass s))) (Activate s)
      else s)"

definition ApplyTorqueImpulse :: "externals \<Rightarrow> Vector3 \<Rightarrow> RigidBody \<Rightarrow> RigidBody" where
  "ApplyTorqueImpulse X torque s =
     (if body s \<noteq> None \<and> torque \<noteq> ZERO
      then solve X (applyTorqueImpulse torque) (Activate s) else s)"

definition ResetForces :: "externals \<Rightarrow> RigidBody \<Rightarrow> RigidBody" where
  "ResetForces X s = (if body s \<noteq> None then solve X clearForces s else s)"

section \<open>Query accessors\<close>

definition GetRotation :: "RigidBody \<Rightarrow> Quaternion" where
  "GetRotation s =
     (case body s of Some b \<Rightarrow> rotation (m_worldTransform b) | None \<Rightarrow> IDENTITY)"

definition GetLinearVelocity :: "RigidBody \<Rightarrow> Vector3" where
  "GetLinearVelocity s = (case body s of Some b \<Rightarrow> m_linearVelocity b | None \<Rightarrow> ZERO)"

definition GetLinearFactor :: "RigidBody \<Rightarrow> Vector3" where
  "GetLinearFactor s = (case body s of Some b \<Rightarrow> m_linearFactor b | None \<Rightarrow> ZERO)"

definition GetVelocityAtPoint :: "externals \<Rightarrow> Vector3 \<Rightarrow> RigidBody \<Rightarrow> Vector3" where
  "GetVelocityAtPoint X position s =
     (case body s of
        Some b \<Rightarrow> getVelocityInLocalPoint X b (vsub position (centerOfMass s))
      | None \<Rightarrow> ZERO)"

definition GetLinearRestThreshold :: "RigidBody \<Rightarrow> real" where
  "GetLinearRestThreshold s =
     (case body s of Some b \<Rightarrow> m_linearSleepingThreshold b | None \<Rightarrow> 0)"

definition GetLinearDamping :: "RigidBody \<Rightarrow> real" where
  "GetLinearDamping s = (case body s of Some b \<Rightarrow> m_linearDamping b | None \<Rightarrow> 0)"

definition GetAngularVelocity :: "RigidBody \<Rightarrow> Vector3" where
  "GetAngularVelocity s = (case body s of Some b \<Rightarrow> m_angularVelocity b | None \<Rightarrow> ZERO)"

definition GetAngularFactor :: "RigidBody \<Rightarrow> Vector3" where
  "GetAngularFactor s = (case body s of Some b \<Rightarrow> m_angularFactor b | None \<Rightarrow> ZERO)"

definition GetAngularRestThreshold :: "RigidBody \<Rightarrow> real" where
  "GetAngularRestThreshold s =
     (case body s of Some b \<Rightarrow> m_angularSleepingThreshold b | None \<Rightarrow> 0)"

definition GetAngularDamping :: "RigidBody \<Rightarrow> real" where
  "GetAngularDamping s = (case body s of Some b \<Rightarrow> m_angularDamping b | None \<Rightarrow> 0)"

definition GetFriction :: "RigidBody \<Rightarrow> real" where
  "GetFriction s = (case body s of Some b \<Rightarrow> m_friction b | None \<Rightarrow> 0)"

definition GetRollingFriction :: "RigidBody \<Rightarrow> real" where
  "GetRollingFriction s = (case body s of Some b \<Rightarrow> m_rollingFriction b | None \<Rightarrow> 0)"

definition GetRestitution :: "RigidBody \<Rightarrow> real" where
  "GetRestitution s = (case body s of Some b \<Rightarrow> m_restitution b | None \<Rightarrow> 0)"

definition GetContactProcessingThreshold :: "RigidBody \<Rightarrow> real" where
  "GetContactProcessingThreshold s =
     (case body s of Some b \<Rightarrow> m_contactProcessingThreshold b | None \<Rightarrow> 0)"

definition GetCcdRadius :: "RigidBody \<Rightarrow> real" where
  "GetCcdRadius s = (case body s of Some b \<Rightarrow> m_ccdSweptSphereRadius b | None \<Rightarrow> 0)"

definition GetCcdMotionThreshold :: "RigidBody \<Rightarrow> real" where
  "GetCcdMotionThreshold s =
     (case body s of Some b \<Rightarrow> m_ccdMotionThreshold b | None \<Rightarrow> 0)"

definition IsActive :: "RigidBody \<Rightarrow> bool" where
  "IsActive s = (case body s of Some b \<Rightarrow> m_active b | None \<Rightarrow> False)"

section \<open>Constraints\<close>

definition AddConstraint :: "constraint \<Rightarrow> RigidBody \<Rightarrow> RigidBody" where
  "AddConstraint c s = s\<lparr>constraints := constraints s @ [c]\<rparr>"

text \<open>\<open>PODVector::Remove\<close> erases the first element equal to the value, if there is one.\<close>

definition RemoveConstraint :: "constraint \<Rightarrow> RigidBody \<Rightarrow> RigidBody" where
  "RemoveConstraint c s = Activate (s\<lparr>constraints := remove1 c (constraints s)\<rparr>)"

section \<open>Mass properties\<close>

text \<open>\<open>btCompoundShape::removeChildShapeByIndex\<close> moves the last child into the freed
  slot and drops the last slot; \<open>addChildShape\<close> appends.\<close>

definition removeChildShapeByIndex :: "nat \<Rightarrow> child list \<Rightarrow> child list" where
  "removeChildShapeByIndex i cs = butlast (cs[i := last cs])"

definition addChildShape :: "btTransform \<Rightarrow> shape \<Rightarrow> child list \<Rightarrow> child list" where
  "addChildShape t sh cs = cs @ [\<lparr>m_transform = t, m_childShape = sh\<rparr>]"

text \<open>\<open>while (n = getNumChildShapes()) removeChildShapeByIndex(n - 1);\<close>\<close>

function removeAllChildren :: "child list \<Rightarrow> child list" where
  "removeAllChildren cs =
     (if length cs \<noteq> 0
      then removeAllChildren (removeChildShapeByIndex (length cs - 1) cs)
      else cs)"
  by pat_completeness auto
termination
  by (relation "measure length") (auto simp: removeChildShapeByIndex_def)

declare removeAllChildren.simps [simp del]

text \<open>The loop that gives every child the mass 1 in a vector of \<open>numShapes\<close> entries.\<close>

definition unitMasses :: "nat \<Rightarrow> real list" where
  "unitMasses numShapes =
     foldl (\<lambda>masses i. masses[i := 1]) (replicate numShapes 0) [0..<numShapes]"

text \<open>The loop that copies every child of the source aggregate into the shifted one,
  its origin moved by the origin of the principal transform.\<close>

definition addShiftedChildren :: "Vector3 \<Rightarrow> child list \<Rightarrow> child list \<Rightarrow> child list" where
  "addShiftedChildren principalOrigin compound shifted =
     foldl (\<lambda>sh i.
              let adjusted = m_transform (compound ! i);
                  adjusted = adjusted\<lparr>origin := vsub (origin adjusted) principalOrigin\<rparr>
              in addChildShape adjusted (m_childShape (compound ! i)) sh)
           shifted [0..<length compound]"

definition modifyBody :: "(btRigidBody \<Rightarrow> btRigidBody) \<Rightarrow> RigidBody \<Rightarrow> RigidBody" where
  "modifyBody f s = (case body s of None \<Rightarrow> s | Some b \<Rightarrow> s\<lparr>body := Some (f b)\<rparr>)"

text \<open>The choice between the compound shape and its only child: \<open>useCompound\<close> as
  the source computes it from the number of shapes and the shifted aggregate.\<close>

definition useCompoundShape :: "externals \<Rightarrow> nat \<Rightarrow> child list \<Rightarrow> bool" where
  "useCompoundShape X numShapes shifted =
     (let useCompound = (numShapes = 0 \<or> numShapes > 1)
      in if \<not> useCompound
         then (if \<not> vecEquals X (origin (m_transform (shifted ! 0))) ZERO \<or>
                  \<not> quatEquals X (rotation (m_transform (shifted ! 0))) IDENTITY
               then True else useCompound)
         else useCompound)"

text \<open>The condition under which the body gets the custom material callback. It asks
  the physics world only for a single triangle-mesh child; \<open>None\<close> is the dereference of
  a physics world that is gone.\<close>

definition customMaterialCallback ::
  "externals \<Rightarrow> bool \<Rightarrow> collisionShape \<Rightarrow> PhysicsWorld option \<Rightarrow> bool option" where
  "customMaterialCallback X useCompound exposed world =
     (if \<not> useCompound \<and>
         (case exposed of
            ChildShape sh \<Rightarrow> getShapeType X sh = SCALED_TRIANGLE_MESH_SHAPE_PROXYTYPE X
          | CompoundShape \<Rightarrow> False)
      then map_option internalEdge world
      else Some False)"

text \<open>"Reapply rigid body position with new center of mass shift".\<close>

definition reapplyPosition :: "externals \<Rightarrow> Vector3 \<Rightarrow> RigidBody \<Rightarrow> RigidBody" where
  "reapplyPosition X principalOrigin s =
     (let oldPosition = GetPosition X s
      in SetPosition X oldPosition (s\<lparr>centerOfMass := principalOrigin\<rparr>))"

text \<open>"Calculate final inertia".\<close>

definition setMassProps :: "externals \<Rightarrow> RigidBody \<Rightarrow> RigidBody" where
  "setMassProps X s =
     (let localInertia = (if mass s > 0
            then calculateLocalInertia X (shiftedCompoundShape s) (mass s)
            else Vector3 0 0 0)
      in emit updateInertiaTensor
           (modifyBody (\<lambda>b. b\<lparr>m_mass := mass s, m_localInertia := localInertia\<rparr>) s))"

text \<open>"Reapply constraint positions for new center of mass shift".\<close>

definition applyConstraintFrames :: "RigidBody \<Rightarrow> RigidBody" where
  "applyConstraintFrames s =
     (if node s \<noteq> None
      then foldl (\<lambda>s c. emit (ApplyFrames c) s) s (constraints s)
      else s)"

text \<open>\<open>UpdateMass\<close>, block by block as the source has it.\<close>

definition UpdateMass :: "externals \<Rightarrow> RigidBody \<Rightarrow> RigidBody option" where
  "UpdateMass X s =
     (case body s of
        None \<Rightarrow> Some s
      | Some b \<Rightarrow>
          let numShapes = length (compoundShape s);
              principalOrigin =
                (if numShapes \<noteq> 0
                 then calculatePrincipalAxisTransform X (unitMasses numShapes) (compoundShape s)
                 else Vector3 0 0 0);
              shifted = addShiftedChildren principalOrigin (compoundShape s)
                          (removeAllChildren (shiftedCompoundShape s));
              useCompound = useCompoundShape X numShapes shifted;
              exposed = (if useCompound then CompoundShape
                         else ChildShape (m_childShape (shifted ! 0)))
          in (case customMaterialCallback X useCompound exposed (physicsWorld s) of
                None \<Rightarrow> None
              | Some custom \<Rightarrow>
                  let flags = (if custom
                         then m_collisionFlags b OR CF_CUSTOM_MATERIAL_CALLBACK X
                         else m_collisionFlags b AND NOT (CF_CUSTOM_MATERIAL_CALLBACK X));
                      s = s\<lparr>shiftedCompoundShape := shifted,
                            body := Some (b\<lparr>m_collisionShape := exposed,
                                             m_collisionFlags := flags\<rparr>)\<rparr>
                  in Some (applyConstraintFrames
                             (setMassProps X (reapplyPosition X principalOrigin s)))))"

section \<open>Gravity\<close>

definition UpdateGravity :: "externals \<Rightarrow> RigidBody \<Rightarrow> RigidBody" where
  "UpdateGravity X s =
     (case physicsWorld s of
        None \<Rightarrow> s
      | Some world \<Rightarrow>
          (case body s of
             None \<Rightarrow> s
           | Some b \<Rightarrow>
               let flags = m_rigidbodyFlags b;
                   flags = (if useGravity s \<and> gravityOverride s = ZERO
                            then flags AND NOT (BT_DISABLE_WORLD_GRAVITY X)
                            else flags OR BT_DISABLE_WORLD_GRAVITY X);
                   b = b\<lparr>m_rigidbodyFlags := flags\<rparr>;
                   b = (if useGravity s
                        then (if gravityOverride s = ZERO
                              then b\<lparr>m_gravity := worldGravity world\<rparr>
                              else b\<lparr>m_gravity := gravityOverride s\<rparr>)
                        else b\<lparr>m_gravity := Vector3 0 0 0\<rparr>)
               in s\<lparr>body := Some b\<rparr>))"

definition SetUseGravity :: "externals \<Rightarrow> bool \<Rightarrow> RigidBody \<Rightarrow> RigidBody" where
  "SetUseGravity X enable s =
     (if enable \<noteq> useGravity s
      then emit MarkNetworkUpdate (UpdateGravity X (s\<lparr>useGravity := enable\<rparr>))
      else s)"

definition SetGravityOverride :: "externals \<Rightarrow> Vector3 \<Rightarrow> RigidBody \<Rightarrow> RigidBody" where
  "SetGravityOverride X gravity s =
     (if gravity \<noteq> gravityOverride s
      then emit MarkNetworkUpdate (UpdateGravity X (s\<lparr>gravityOverride := gravity\<rparr>))
      else s)"

section \<open>World membership\<close>

definition setRegistered :: "(32 word \<times> 32 word) option \<Rightarrow> RigidBody \<Rightarrow> RigidBody" where
  "setRegistered r s =
     s\<lparr>physicsWorld := map_option (\<lambda>world. world\<lparr>registered := r\<rparr>) (physicsWorld s)\<rparr>"

definition RemoveBodyFromWorld :: "RigidBody \<Rightarrow> RigidBody" where
  "RemoveBodyFromWorld s =
     (if physicsWorld s \<noteq> None \<and> body s \<noteq> None \<and> inWorld s
      then (emit removeRigidBody (setRegistered None s))\<lparr>inWorld := False\<rparr>
      else s)"

text \<open>Modelled from the spec: the shape collaborator (\<open>CollisionShape::NotifyRigidBody\<close>,
  in another file) contributes itself to the source aggregate: it takes its own shape
  out of the aggregate and adds it with its current local transform.\<close>

definition removeChildShape :: "shape \<Rightarrow> child list \<Rightarrow> child list" where
  "removeChildShape sh cs = filter (\<lambda>c. m_childShape c \<noteq> sh) cs"

definition NotifyRigidBody :: "child \<Rightarrow> RigidBody \<Rightarrow> RigidBody" where
  "NotifyRigidBody c s =
     s\<lparr>compoundShape :=
          addChildShape (m_transform c) (m_childShape c)
            (removeChildShape (m_childShape c) (compoundShape s))\<rparr>"

text \<open>The branch of \<open>AddBodyToWorld\<close> that creates the body. \<open>None\<close> is the dereference of
  a node that is not there.\<close>

definition createBody :: "externals \<Rightarrow> RigidBody \<Rightarrow> RigidBody option" where
  "createBody X s =
     (case node s of
        None \<Rightarrow> None
      | Some n \<Rightarrow>
          let localInertia = Vector3 0 0 0;
              s = s\<lparr>body := Some (newRigidBody X (mass s) CompoundShape localInertia)\<rparr>;
              s = (if nodeSmoothedTransform n
                   then emit (SubscribeToEvent ''E_TARGETROTATION'')
                          (emit (SubscribeToEvent ''E_TARGETPOSITION'')
                             (s\<lparr>hasSmoothedTransform := True\<rparr>))
                   else s);
              s = foldl (\<lambda>s c. NotifyRigidBody c s) s (nodeShapes n);
              s = foldl (\<lambda>s c. emit (CreateConstraint c) s) s (nodeConstraints n)
          in Some s)"

text \<open>The part of \<open>AddBodyToWorld\<close> after the mass and gravity updates: the collision
  flags, the early return of a disabled entity, the insertion and what follows it.\<close>

definition insertBody :: "externals \<Rightarrow> RigidBody \<Rightarrow> RigidBody" where
  "insertBody X s =
     (let s = modifyBody (\<lambda>b.
                let flags = m_collisionFlags b;
                    flags = (if phantom s then flags OR CF_NO_CONTACT_RESPONSE X
                             else flags AND NOT (CF_NO_CONTACT_RESPONSE X));
                    flags = (if kinematic s then flags OR CF_KINEMATIC_OBJECT X
                             else flags AND NOT (CF_KINEMATIC_OBJECT X))
                in b\<lparr>m_collisionFlags := flags\<rparr>) s
      in if \<not> IsEnabledEffective s then s
         else
           let s = emit (addRigidBody (collisionLayer s) (collisionMask s))
                     (setRegistered (Some (collisionLayer s, collisionMask s)) s);
               s = s\<lparr>inWorld := True, readdBody := False\<rparr>
           in if mass s > 0 then Activate s
              else SetAngularVelocity ZERO (SetLinearVelocity ZERO s))"

definition AddBodyToWorld :: "externals \<Rightarrow> RigidBody \<Rightarrow> RigidBody option" where
  "AddBodyToWorld X s =
     (if physicsWorld s = None then Some s
      else
        let s = (if mass s < 0 then s\<lparr>mass := 0\<rparr> else s)
        in (case (if body s \<noteq> None then Some (RemoveBodyFromWorld s) else createBody X s) of
              None \<Rightarrow> None
            | Some s \<Rightarrow>
                (case UpdateMass X s of
                   None \<Rightarrow> None
                 | Some s \<Rightarrow> Some (insertBody X (UpdateGravity X s)))))"

definition ReAddBodyToWorld :: "externals \<Rightarrow> RigidBody \<Rightarrow> RigidBody option" where
  "ReAddBodyToWorld X s =
     (if body s \<noteq> None \<and> inWorld s then AddBodyToWorld X s else Some s)"

section \<open>Setters that rebuild the body\<close>

definition SetMass :: "externals \<Rightarrow> real \<Rightarrow> RigidBody \<Rightarrow> RigidBody option" where
  "SetMass X m s =
     (let m = MaxF m 0
      in if m \<noteq> mass s
         then map_option (emit MarkNetworkUpdate) (AddBodyToWorld X (s\<lparr>mass := m\<rparr>))
         else Some s)"

definition SetKinematic :: "externals \<Rightarrow> bool \<Rightarrow> RigidBody \<Rightarrow> RigidBody option" where
  "SetKinematic X enable s =
     (if enable \<noteq> kinematic s
      then map_option (emit MarkNetworkUpdate) (AddBodyToWorld X (s\<lparr>kinematic := enable\<rparr>))
      else Some s)"

definition SetPhantom :: "externals \<Rightarrow> bool \<Rightarrow> RigidBody \<Rightarrow> RigidBody option" where
  "SetPhantom X enable s =
     (if enable \<noteq> phantom s
      then map_option (emit MarkNetworkUpdate) (AddBodyToWorld X (s\<lparr>phantom := enable\<rparr>))
      else Some s)"

definition SetCollisionLayer :: "externals \<Rightarrow> 32 word \<Rightarrow> RigidBody \<Rightarrow> RigidBody option" where
  "SetCollisionLayer X layer s =
     (if layer \<noteq> collisionLayer s
      then map_option (emit MarkNetworkUpdate)
             (AddBodyToWorld X (s\<lparr>collisionLayer := layer\<rparr>))
      else Some s)"

definition SetCollisionMask :: "externals \<Rightarrow> 32 word \<Rightarrow> RigidBody \<Rightarrow> RigidBody option" where
  "SetCollisionMask X mask' s =
     (if mask' \<noteq> collisionMask s
      then map_option (emit MarkNetworkUpdate)
             (AddBodyToWorld X (s\<lparr>collisionMask := mask'\<rparr>))
      else Some s)"

definition SetCollisionLayerAndMask ::
  "externals \<Rightarrow> 32 word \<Rightarrow> 32 word \<Rightarrow> RigidBody \<Rightarrow> RigidBody option" where
  "SetCollisionLayerAndMask X layer mask' s =
     (if layer \<noteq> collisionLayer s \<or> mask' \<noteq> collisionMask s
      then map_option (emit MarkNetworkUpdate)
             (AddBodyToWorld X (s\<lparr>collisionLayer := layer, collisionMask := mask'\<rparr>))
      else Some s)"

section \<open>Attributes, enabling, attachment and release\<close>

text \<open>Modelled from the spec: the attributes registered without an accessor (mass,
  collision layer and mask, collision event mode, kinematic, phantom) are written into
  the member by \<open>Component::OnSetAttribute\<close>, which is in another file; the others go
  through the setters above and leave \<open>readdBody\<close> alone.\<close>

datatype attribute =
    Mass real
  | CollisionLayer "32 word"
  | CollisionMask "32 word"
  | CollisionEventModeAttr CollisionEventMode
  | IsKinematic bool
  | IsPhantom bool

fun OnSetAttribute :: "attribute \<Rightarrow> RigidBody \<Rightarrow> RigidBody" where
  "OnSetAttribute (Mass m) s = s\<lparr>mass := m, readdBody := True\<rparr>"
| "OnSetAttribute (CollisionLayer l) s = s\<lparr>collisionLayer := l, readdBody := True\<rparr>"
| "OnSetAttribute (CollisionMask m) s = s\<lparr>collisionMask := m, readdBody := True\<rparr>"
| "OnSetAttribute (CollisionEventModeAttr m) s =
     s\<lparr>collisionEventMode := m, readdBody := True\<rparr>"
| "OnSetAttribute (IsKinematic k) s = s\<lparr>kinematic := k, readdBody := True\<rparr>"
| "OnSetAttribute (IsPhantom p) s = s\<lparr>phantom := p, readdBody := True\<rparr>"

definition ApplyAttributes :: "externals \<Rightarrow> RigidBody \<Rightarrow> RigidBody option" where
  "ApplyAttributes X s = (if readdBody s then AddBodyToWorld X s else Some s)"

definition OnSetEnabled :: "externals \<Rightarrow> RigidBody \<Rightarrow> RigidBody option" where
  "OnSetEnabled X s =
     (let enabled = IsEnabledEffective s
      in if enabled \<and> \<not> inWorld s then AddBodyToWorld X s
         else if \<not> enabled \<and> inWorld s then Some (RemoveBodyFromWorld s)
         else Some s)"

definition ReleaseBody :: "RigidBody \<Rightarrow> RigidBody" where
  "ReleaseBody s =
     (if body s \<noteq> None
      then
        let s = foldl (\<lambda>s c. emit (ReleaseConstraint c) s) s (constraints s)
        in (RemoveBodyFromWorld s)\<lparr>body := None\<rparr>
      else s)"

text \<open>\<open>OnNodeSet\<close>, with what \<open>GetScene()\<close> and the scene's lookup of its physics world
  return as arguments: \<open>scene\<close> is \<open>None\<close> for a node outside every scene, \<open>Some None\<close>
  for a scene without physics world; \<open>isRoot\<close> says that the node is the scene itself.
  The member \<open>node\<close> is set by the caller, \<open>Component::SetNode\<close>.\<close>

definition OnNodeSet ::
  "externals \<Rightarrow> Node option \<Rightarrow> PhysicsWorld option option \<Rightarrow> bool \<Rightarrow> RigidBody \<Rightarrow>
     RigidBody option" where
  "OnNodeSet X nd scene isRoot s =
     (case nd of
        None \<Rightarrow> Some s
      | Some n \<Rightarrow>
          (case scene of
             Some world \<Rightarrow>
               let s = (if isRoot
                        then emit (Log ''should not be created to the root scene node'') s
                        else s);
                   s = s\<lparr>physicsWorld := world\<rparr>;
                   s = (if physicsWorld s \<noteq> None then emit AddRigidBody s
                        else emit (Log ''No physics world component in scene'') s)
               in map_option (emit AddListener) (AddBodyToWorld X s)
           | None \<Rightarrow>
               Some (emit AddListener (emit (Log ''Node is detached from scene'') s))))"

definition SetNode ::
  "externals \<Rightarrow> Node option \<Rightarrow> PhysicsWorld option option \<Rightarrow> bool \<Rightarrow> RigidBody \<Rightarrow>
     RigidBody option" where
  "SetNode X nd scene isRoot s = OnNodeSet X nd scene isRoot (s\<lparr>node := nd\<rparr>)"

section \<open>The transform bridge\<close>

text \<open>\<open>getWorldTransform\<close>, the callback through which the solver reads the transform
  of the node: it returns the transform it writes into its argument, or nothing when
  the node is gone, together with the component, whose cached transform it updates.\<close>

definition getWorldTransform :: "externals \<Rightarrow> RigidBody \<Rightarrow> btTransform option \<times> RigidBody" where
  "getWorldTransform X s =
     (case node s of
        None \<Rightarrow> (None, s)
      | Some n \<Rightarrow>
          let s = s\<lparr>lastPosition := worldPosition n, lastRotation := worldRotation n\<rparr>
          in (Some \<lparr>origin = vadd (lastPosition s) (rotate X (lastRotation s) (centerOfMass s)),
                    rotation = lastRotation s\<rparr>, s))"

text \<open>\<open>ApplyWorldTransform\<close>. \<open>None\<close> is the dereference of a physics world or of a node
  that is not there. The reentrancy flag of the world is raised for the duration of the
  call and is down when it returns.\<close>

definition ApplyWorldTransform ::
  "Vector3 \<Rightarrow> Quaternion \<Rightarrow> RigidBody \<Rightarrow> RigidBody option" where
  "ApplyWorldTransform newWorldPosition newWorldRotation s =
     (case physicsWorld s of
        None \<Rightarrow> None
      | Some world \<Rightarrow>
          (case node s of
             None \<Rightarrow> None
           | Some n \<Rightarrow>
               let transform = (if hasSmoothedTransform s then nodeSmoothedTransform n else False);
                   s = (if transform
                        then (emit (SetTargetWorldRotation newWorldRotation)
                                (emit (SetTargetWorldPosition newWorldPosition) s))
                             \<lparr>lastPosition := newWorldPosition,
                              lastRotation := newWorldRotation\<rparr>
                        else
                          let n = n\<lparr>worldPosition := newWorldPosition,
                                    worldRotation := newWorldRotation\<rparr>
                          in s\<lparr>node := Some n, lastPosition := worldPosition n,
                               lastRotation := worldRotation n\<rparr>)
               in Some (s\<lparr>physicsWorld := Some (world\<lparr>applyingTransforms := False\<rparr>)\<rparr>)))"

text \<open>\<open>setWorldTransform\<close>, the callback through which the solver writes the transform
  of the body back.\<close>

definition setWorldTransform :: "externals \<Rightarrow> btTransform \<Rightarrow> RigidBody \<Rightarrow> RigidBody option" where
  "setWorldTransform X worldTrans s =
     (let newWorldRotation = rotation worldTrans;
          newWorldPosition = vsub (origin worldTrans) (rotate X newWorldRotation (centerOfMass s))
      in case node s of
           None \<Rightarrow> Some s
         | Some n \<Rightarrow>
             if \<not> parentRigidBody n
             then map_option (emit MarkNetworkUpdate)
                    (ApplyWorldTransform newWorldPosition newWorldRotation s)
             else if physicsWorld s = None then None
             else Some (emit MarkNetworkUpdate
                          (emit (AddDelayedWorldTransform newWorldPosition newWorldRotation) s)))"

text \<open>\<open>OnMarkedDirty\<close>; \<open>threaded\<close> says that there is a scene and that it is in its
  threaded update. \<open>None\<close> is the dereference of a node that is not there.\<close>

definition OnMarkedDirty :: "externals \<Rightarrow> bool \<Rightarrow> RigidBody \<Rightarrow> RigidBody option" where
  "OnMarkedDirty X threaded s =
     (if (case physicsWorld s of None \<Rightarrow> True | Some world \<Rightarrow> \<not> applyingTransforms world) \<and>
         \<not> hasSmoothedTransform s
      then
        if threaded then Some (emit DelayedMarkedDirty s)
        else
          (case node s of
             None \<Rightarrow> None
           | Some n \<Rightarrow>
               let newPosition = worldPosition n;
                   newRotation = worldRotation n;
                   s = (if \<not> quatEquals X newRotation (lastRotation s)
                        then SetRotation X newRotation (s\<lparr>lastRotation := newRotation\<rparr>)
                        else s);
                   s = (if \<not> vecEquals X newPosition (lastPosition s)
                        then SetPosition X newPosition (s\<lparr>lastPosition := newPosition\<rparr>)
                        else s)
               in Some s)
      else Some s)"

definition HandleTargetPosition :: "externals \<Rightarrow> Vector3 \<Rightarrow> RigidBody \<Rightarrow> RigidBody" where
  "HandleTargetPosition X target s =
     (if (case physicsWorld s of None \<Rightarrow> True | Some world \<Rightarrow> \<not> applyingTransforms world)
      then SetPosition X target s else s)"

definition HandleTargetRotation :: "externals \<Rightarrow> Quaternion \<Rightarrow> RigidBody \<Rightarrow> RigidBody" where
  "HandleTargetRotation X target s =
     (if (case physicsWorld s of None \<Rightarrow> True | Some world \<Rightarrow> \<not> applyingTransforms world)
      then SetRotation X target s else s)"

section \<open>The six ways to push a body\<close>

text \<open>\<open>ApplyForce\<close> (central and at a position), \<open>ApplyTorque\<close>, \<open>ApplyImpulse\<close>
  (central and at a position) and \<open>ApplyTorqueImpulse\<close> as one family: the input vector
  of an application, the member function it stands for, and the solver call that the
  member function makes.\<close>

datatype application =
    Force Vector3
  | ForceAt Vector3 Vector3
  | Torque Vector3
  | Impulse Vector3
  | ImpulseAt Vector3 Vector3
  | TorqueImpulse Vector3

fun input :: "application \<Rightarrow> Vector3" where
  "input (Force v) = v"
| "input (ForceAt v p) = v"
| "input (Torque v) = v"
| "input (Impulse v) = v"
| "input (ImpulseAt v p) = v"
| "input (TorqueImpulse v) = v"

fun apply_to :: "externals \<Rightarrow> application \<Rightarrow> RigidBody \<Rightarrow> RigidBody" where
  "apply_to X (Force v) s = ApplyForce X v s"
| "apply_to X (ForceAt v p) s = ApplyForceAt X v p s"
| "apply_to X (Torque v) s = ApplyTorque X v s"
| "apply_to X (Impulse v) s = ApplyImpulse X v s"
| "apply_to X (ImpulseAt v p) s = ApplyImpulseAt X v p s"
| "apply_to X (TorqueImpulse v) s = ApplyTorqueImpulse X v s"

fun solverInput :: "RigidBody \<Rightarrow> application \<Rightarrow> solverCall" where
  "solverInput s (Force v) = applyCentralForce v"
| "solverInput s (ForceAt v p) = applyForce v (vsub p (centerOfMass s))"
| "solverInput s (Torque v) = applyTorque v"
| "solverInput s (Impulse v) = applyCentralImpulse v"
| "solverInput s (ImpulseAt v p) = applyImpulse v (vsub p (centerOfMass s))"
| "solverInput s (TorqueImpulse v) = applyTorqueImpulse v"

definition wake :: "RigidBody \<Rightarrow> call list" where
  "wake s = (if body s \<noteq> None \<and> mass s > 0 then [activate] else [])"

section \<open>An instance of the external parameters\<close>

text \<open>One choice of the external functions and constants, on which the model is run at
  concrete inputs: the quaternion rotation and the comparisons with tolerance of the
  engine's math library, the centroid as origin of the principal transform, the flag
  values of the physics library, a solver that defers every input to its next step.
  The products of the instance are exact; at the inputs used below every product is
  zero or a small integer, which the machine computes exactly as well.\<close>

fun cross :: "Vector3 \<Rightarrow> Vector3 \<Rightarrow> Vector3" where
  "cross (Vector3 a b c) (Vector3 d e f) = Vector3 (b * f - c * e) (c * d - a * f) (a * e - b * d)"

fun scale :: "real \<Rightarrow> Vector3 \<Rightarrow> Vector3" where
  "scale k (Vector3 a b c) = Vector3 (k * a) (k * b) (k * c)"

fun rotate0 :: "Quaternion \<Rightarrow> Vector3 \<Rightarrow> Vector3" where
  "rotate0 (Quaternion w x y z) v =
     (let qVec = Vector3 x y z; cross1 = cross qVec v; cross2 = cross qVec cross1
      in vadd v (scale 2 (vadd (scale w cross1) cross2)))"

definition Equals :: "real \<Rightarrow> real \<Rightarrow> bool" where
  "Equals lhs rhs = (lhs + 1 / 1000000 \<ge> rhs \<and> lhs - 1 / 1000000 \<le> rhs)"

fun vecEquals0 :: "Vector3 \<Rightarrow> Vector3 \<Rightarrow> bool" where
  "vecEquals0 (Vector3 a b c) (Vector3 d e f) = (Equals a d \<and> Equals b e \<and> Equals c f)"

fun quatEquals0 :: "Quaternion \<Rightarrow> Quaternion \<Rightarrow> bool" where
  "quatEquals0 (Quaternion a b c d) (Quaternion e f g h) =
     (Equals a e \<and> Equals b f \<and> Equals c g \<and> Equals d h)"

definition centroid :: "real list \<Rightarrow> child list \<Rightarrow> Vector3" where
  "centroid masses cs =
     scale (1 / sum_list masses)
       (foldl vadd (Vector3 0 0 0) (map2 (\<lambda>m c. scale m (origin (m_transform c))) masses cs))"

definition body0 :: "real \<Rightarrow> collisionShape \<Rightarrow> Vector3 \<Rightarrow> btRigidBody" where
  "body0 m sh inertia = \<lparr>
     m_worldTransform = \<lparr>origin = ZERO, rotation = IDENTITY\<rparr>,
     m_interpolationWorldTransform = \<lparr>origin = ZERO, rotation = IDENTITY\<rparr>,
     m_linearVelocity = ZERO, m_angularVelocity = ZERO,
     m_linearFactor = Vector3 1 1 1, m_angularFactor = Vector3 1 1 1,
     m_linearDamping = 0, m_angularDamping = 0,
     m_linearSleepingThreshold = 4 / 5, m_angularSleepingThreshold = 1,
     m_friction = 1 / 2, m_rollingFriction = 0, m_restitution = 0,
     m_contactProcessingThreshold = 1000000000000000000,
     m_ccdSweptSphereRadius = 0, m_ccdMotionThreshold = 0,
     m_gravity = ZERO, m_rigidbodyFlags = 0, m_collisionFlags = 0,
     m_collisionShape = sh, m_mass = m, m_localInertia = inertia, m_active = True \<rparr>"

definition X0 :: externals where
  "X0 = \<lparr>
     rotate = rotate0, vecEquals = vecEquals0, quatEquals = quatEquals0,
     calculatePrincipalAxisTransform = centroid,
     calculateLocalInertia = (\<lambda>cs m. Vector3 m m m),
     getShapeType = (\<lambda>sh. 0), SCALED_TRIANGLE_MESH_SHAPE_PROXYTYPE = 22,
     BT_DISABLE_WORLD_GRAVITY = 1, CF_NO_CONTACT_RESPONSE = 4, CF_KINEMATIC_OBJECT = 2,
     CF_CUSTOM_MATERIAL_CALLBACK = 8,
     newRigidBody = body0,
     solverApply = (\<lambda>c b. b),
     getVelocityInLocalPoint = (\<lambda>b p. vadd (m_linearVelocity b) (cross (m_angularVelocity b) p)) \<rparr>"

definition node0 :: Node where
  "node0 = \<lparr> worldPosition = ZERO, worldRotation = IDENTITY, nodeEnabled = True,
      parentRigidBody = False,
      nodeShapes = [\<lparr>m_transform = \<lparr>origin = Vector3 1 0 0, rotation = IDENTITY\<rparr>, m_childShape = 1\<rparr>],
      nodeConstraints = [], nodeSmoothedTransform = False \<rparr>"

definition world0 :: PhysicsWorld where
  "world0 = \<lparr> worldGravity = Vector3 0 (- 981 / 100) 0, internalEdge = True,
      applyingTransforms = False, registered = None \<rparr>"

definition resting :: RigidBody where
  "resting = RigidBody_new\<lparr>body := Some (body0 0 CompoundShape ZERO)\<rparr>"

definition awake :: RigidBody where
  "awake = resting\<lparr>mass := 2\<rparr>"

definition falling :: RigidBody where
  "falling = resting\<lparr>physicsWorld := Some world0, mass := 1\<rparr>"

definition attached :: RigidBody where
  "attached = the (SetNode X0 (Some node0) (Some (Some world0)) False RigidBody_new)"

definition held :: RigidBody where
  "held = AddConstraint 7 attached"

definition asleep :: RigidBody where
  "asleep = modifyBody (\<lambda>b. b\<lparr>m_active := False\<rparr>) held"

text \<open>A position close to the origin of the world: \<open>2^-27\<close> along the first axis.\<close>

definition nearOrigin :: Vector3 where
  "nearOrigin = Vector3 (1 / 2 ^ 27) 0 0"

section \<open>Closed forms used in the proofs\<close>

text \<open>The shifted copy of a child and the origin of the principal transform that
  \<open>UpdateMass\<close> computes, for stating what the rebuild produces.\<close>

definition shiftChild :: "Vector3 \<Rightarrow> child \<Rightarrow> child" where
  "shiftChild p c = c\<lparr>m_transform := (m_transform c)\<lparr>origin := vsub (origin (m_transform c)) p\<rparr>\<rparr>"

definition principalOrigin :: "externals \<Rightarrow> RigidBody \<Rightarrow> Vector3" where
  "principalOrigin X s =
     (if length (compoundShape s) \<noteq> 0
      then calculatePrincipalAxisTransform X (replicate (length (compoundShape s)) 1) (compoundShape s)
      else Vector3 0 0 0)"

definition wakeCalls :: "real \<Rightarrow> call list" where
  "wakeCalls m = (if m > 0 then [activate] else [])"

definition shiftedOf :: "externals \<Rightarrow> RigidBody \<Rightarrow> child list" where
  "shiftedOf X s = map (shiftChild (principalOrigin X s)) (compoundShape s)"

definition collapses :: "externals \<Rightarrow> RigidBody \<Rightarrow> bool" where
  "collapses X s =
     (length (compoundShape s) = 1 \<and>
      vecEquals X (origin (m_transform (shiftedOf X s ! 0))) ZERO \<and>
      quatEquals X (rotation (m_transform (shiftedOf X s ! 0))) IDENTITY)"

definition exposedShape :: "externals \<Rightarrow> RigidBody \<Rightarrow> collisionShape" where
  "exposedShape X s =
     (if collapses X s then ChildShape (m_childShape (compoundShape s ! 0)) else CompoundShape)"

definition massFlags :: "externals \<Rightarrow> RigidBody \<Rightarrow> 32 word \<Rightarrow> 32 word" where
  "massFlags X s flags =
     (if collapses X s \<and>
         getShapeType X (m_childShape (compoundShape s ! 0)) =
           SCALED_TRIANGLE_MESH_SHAPE_PROXYTYPE X \<and>
         (case physicsWorld s of Some world \<Rightarrow> internalEdge world | None \<Rightarrow> False)
      then flags OR CF_CUSTOM_MATERIAL_CALLBACK X
      else flags AND NOT (CF_CUSTOM_MATERIAL_CALLBACK X))"

definition massOrigin :: "externals \<Rightarrow> RigidBody \<Rightarrow> btRigidBody \<Rightarrow> Vector3" where
  "massOrigin X s b =
     vadd (vsub (origin (m_worldTransform b))
                (rotate X (rotation (m_worldTransform b)) (centerOfMass s)))
          (rotate X (rotation (m_worldTransform b)) (principalOrigin X s))"

definition massInertia :: "externals \<Rightarrow> RigidBody \<Rightarrow> Vector3" where
  "massInertia X s =
     (if mass s > 0 then calculateLocalInertia X (shiftedOf X s) (mass s) else Vector3 0 0 0)"

definition massCalls :: "RigidBody \<Rightarrow> call list" where
  "massCalls s =
     [updateInertiaTensor] @ wakeCalls (mass s) @ [MarkNetworkUpdate, updateInertiaTensor] @
     (if node s \<noteq> None then map ApplyFrames (constraints s) else [])"

definition massBody :: "externals \<Rightarrow> RigidBody \<Rightarrow> btRigidBody \<Rightarrow> btRigidBody" where
  "massBody X s b =
     b\<lparr>m_collisionShape := exposedShape X s,
       m_collisionFlags := massFlags X s (m_collisionFlags b),
       m_worldTransform := (m_worldTransform b)\<lparr>origin := massOrigin X s b\<rparr>,
       m_interpolationWorldTransform :=
         (m_interpolationWorldTransform b)\<lparr>origin := massOrigin X s b\<rparr>,
       m_active := (m_active b \<or> mass s > 0),
       m_mass := mass s,
       m_localInertia := massInertia X s\<rparr>"

definition oneShape :: RigidBody where
  "oneShape = falling\<lparr>compoundShape :=
     [\<lparr>m_transform = \<lparr>origin = Vector3 1 0 0, rotation = IDENTITY\<rparr>, m_childShape = 1\<rparr>]\<rparr>"

definition twoShapes :: RigidBody where
  "twoShapes = falling\<lparr>compoundShape :=
     [\<lparr>m_transform = \<lparr>origin = Vector3 1 0 0, rotation = IDENTITY\<rparr>, m_childShape = 1\<rparr>,
      \<lparr>m_transform = \<lparr>origin = Vector3 3 0 0, rotation = IDENTITY\<rparr>, m_childShape = 2\<rparr>]\<rparr>"

text \<open>A body with one shape that is tilted about the first axis by the quaternion
  \<open>(1, 2^-21, 0, 0)\<close>, a unit quaternion of the format: its squared length
  \<open>1 + 2^-42\<close> rounds to \<open>1\<close>.\<close>

definition tilted :: RigidBody where
  "tilted = falling\<lparr>compoundShape :=
     [\<lparr>m_transform = \<lparr>origin = Vector3 1 0 0, rotation = Quaternion 1 (1 / 2 ^ 21) 0 0\<rparr>,
       m_childShape = 1\<rparr>]\<rparr>"

definition clampMass :: "RigidBody \<Rightarrow> RigidBody" where
  "clampMass s = (if mass s < 0 then s\<lparr>mass := 0\<rparr> else s)"

definition gravityBody :: "externals \<Rightarrow> RigidBody \<Rightarrow> PhysicsWorld \<Rightarrow> btRigidBody \<Rightarrow> btRigidBody" where
  "gravityBody X s world b =
     b\<lparr>m_rigidbodyFlags :=
          (if useGravity s \<and> gravityOverride s = ZERO
           then m_rigidbodyFlags b AND NOT (BT_DISABLE_WORLD_GRAVITY X)
           else m_rigidbodyFlags b OR BT_DISABLE_WORLD_GRAVITY X),
       m_gravity :=
          (if useGravity s
           then (if gravityOverride s = ZERO then worldGravity world else gravityOverride s)
           else Vector3 0 0 0)\<rparr>"

definition flagsBody :: "externals \<Rightarrow> RigidBody \<Rightarrow> btRigidBody \<Rightarrow> btRigidBody" where
  "flagsBody X s b =
     b\<lparr>m_collisionFlags :=
          (let flags = m_collisionFlags b;
               flags = (if phantom s then flags OR CF_NO_CONTACT_RESPONSE X
                        else flags AND NOT (CF_NO_CONTACT_RESPONSE X))
           in if kinematic s then flags OR CF_KINEMATIC_OBJECT X
              else flags AND NOT (CF_KINEMATIC_OBJECT X))\<rparr>"

definition insertCalls :: "RigidBody \<Rightarrow> call list" where
  "insertCalls s =
     addRigidBody (collisionLayer s) (collisionMask s) #
     (if mass s > 0 then [activate] else [MarkNetworkUpdate, MarkNetworkUpdate])"

definition insertedBody :: "RigidBody \<Rightarrow> btRigidBody \<Rightarrow> btRigidBody" where
  "insertedBody s b =
     (if mass s > 0 then b\<lparr>m_active := True\<rparr>
      else b\<lparr>m_linearVelocity := ZERO, m_angularVelocity := ZERO\<rparr>)"

definition createCalls :: "Node \<Rightarrow> call list" where
  "createCalls n =
     (if nodeSmoothedTransform n
      then [SubscribeToEvent ''E_TARGETPOSITION'', SubscribeToEvent ''E_TARGETROTATION'']
      else []) @ map CreateConstraint (nodeConstraints n)"

definition isBodyCall :: "call \<Rightarrow> bool" where
  "isBodyCall c = (c \<noteq> removeRigidBody \<and> (case c of addRigidBody l m \<Rightarrow> False | _ \<Rightarrow> True))"

definition massed :: "externals \<Rightarrow> RigidBody \<Rightarrow> btRigidBody \<Rightarrow> RigidBody" where
  "massed X s b =
     s\<lparr>shiftedCompoundShape := shiftedOf X s,
       centerOfMass := principalOrigin X s,
       body := Some (massBody X s b),
       calls := calls s @ massCalls s\<rparr>"

definition created :: "externals \<Rightarrow> Node \<Rightarrow> RigidBody \<Rightarrow> RigidBody" where
  "created X n s =
     s\<lparr>body := Some (newRigidBody X (mass s) CompoundShape (Vector3 0 0 0)),
       hasSmoothedTransform := (hasSmoothedTransform s \<or> nodeSmoothedTransform n),
       compoundShape :=
         foldl (\<lambda>sh c. addChildShape (m_transform c) (m_childShape c)
                   (removeChildShape (m_childShape c) sh)) (compoundShape s) (nodeShapes n),
       calls := calls s @ createCalls n\<rparr>"

definition unattached :: RigidBody where
  "unattached = RigidBody_new\<lparr>physicsWorld := Some world0, node := Some node0\<rparr>"

text \<open>The three setters of the collision filter as one family.\<close>

datatype filterChange = Layer "32 word" | Mask "32 word" | LayerAndMask "32 word" "32 word"

fun setFilter :: "externals \<Rightarrow> filterChange \<Rightarrow> RigidBody \<Rightarrow> RigidBody option" where
  "setFilter X (Layer l) s = SetCollisionLayer X l s"
| "setFilter X (Mask m) s = SetCollisionMask X m s"
| "setFilter X (LayerAndMask l m) s = SetCollisionLayerAndMask X l m s"

fun filtered :: "filterChange \<Rightarrow> RigidBody \<Rightarrow> RigidBody" where
  "filtered (Layer l) s = s\<lparr>collisionLayer := l\<rparr>"
| "filtered (Mask m) s = s\<lparr>collisionMask := m\<rparr>"
| "filtered (LayerAndMask l m) s = s\<lparr>collisionLayer := l, collisionMask := m\<rparr>"

fun changesFilter :: "filterChange \<Rightarrow> RigidBody \<Rightarrow> bool" where
  "changesFilter (Layer l) s = (l \<noteq> collisionLayer s)"
| "changesFilter (Mask m) s = (m \<noteq> collisionMask s)"
| "changesFilter (LayerAndMask l m) s = (l \<noteq> collisionLayer s \<or> m \<noteq> collisionMask s)"

definition moving :: RigidBody where
  "moving = SetLinearVelocity (Vector3 1 0 0) attached"

definition dozing :: RigidBody where
  "dozing = modifyBody (\<lambda>b. b\<lparr>m_active := False\<rparr>) (the (SetMass X0 1 attached))"

section \<open>The operations of the component\<close>

text \<open>Modelled from the spec: the shape collaborator is in another file. When one of its
  shapes is added or changes, it contributes itself to the source aggregate
  (\<open>NotifyRigidBody\<close> above) and asks for the mass update; when a shape is released, it
  takes the shape out of the source aggregate and asks for the mass update.\<close>

definition ShapeChanged :: "externals \<Rightarrow> child \<Rightarrow> RigidBody \<Rightarrow> RigidBody option" where
  "ShapeChanged X c s = UpdateMass X (NotifyRigidBody c s)"

definition ShapeReleased :: "externals \<Rightarrow> shape \<Rightarrow> RigidBody \<Rightarrow> RigidBody option" where
  "ShapeReleased X sh s =
     UpdateMass X (s\<lparr>compoundShape := removeChildShape sh (compoundShape s)\<rparr>)"

text \<open>Modelled from the spec: \<open>Component::SetEnabled\<close> is in another file; it stores the
  flag and calls \<open>OnSetEnabled\<close> when the flag changes.\<close>

definition SetEnabled :: "externals \<Rightarrow> bool \<Rightarrow> RigidBody \<Rightarrow> RigidBody option" where
  "SetEnabled X enable s =
     (if enable \<noteq> enabled s
      then map_option (emit MarkNetworkUpdate) (OnSetEnabled X (s\<lparr>enabled := enable\<rparr>))
      else Some s)"

text \<open>Every entry point of RigidBody.cpp that changes the component, and the two requests
  of the shape collaborator, as one datatype; \<open>exec\<close> runs one of them. \<open>None\<close> is a null
  dereference in the source.\<close>

datatype operation =
    DoSetMass real
  | DoSetPosition Vector3
  | DoSetRotation Quaternion
  | DoSetTransform Vector3 Quaternion
  | DoSetLinearVelocity Vector3
  | DoSetLinearFactor Vector3
  | DoSetLinearRestThreshold real
  | DoSetLinearDamping real
  | DoSetAngularVelocity Vector3
  | DoSetAngularFactor Vector3
  | DoSetAngularRestThreshold real
  | DoSetAngularDamping real
  | DoSetFriction real
  | DoSetRollingFriction real
  | DoSetRestitution real
  | DoSetContactProcessingThreshold real
  | DoSetCcdRadius real
  | DoSetCcdMotionThreshold real
  | DoSetUseGravity bool
  | DoSetGravityOverride Vector3
  | DoSetKinematic bool
  | DoSetPhantom bool
  | DoSetFilter filterChange
  | DoSetCollisionEventMode CollisionEventMode
  | DoApply application
  | DoResetForces
  | DoActivate
  | DoReAddBodyToWorld
  | DoOnSetAttribute attribute
  | DoApplyAttributes
  | DoSetEnabled bool
  | DoSetNode "Node option" "PhysicsWorld option option" bool
  | DoAddConstraint constraint
  | DoRemoveConstraint constraint
  | DoReleaseBody
  | DoUpdateMass
  | DoUpdateGravity
  | DoAddBodyToWorld
  | DoRemoveBodyFromWorld
  | DoGetWorldTransform
  | DoSetWorldTransform btTransform
  | DoApplyWorldTransform Vector3 Quaternion
  | DoOnMarkedDirty bool
  | DoHandleTargetPosition Vector3
  | DoHandleTargetRotation Quaternion
  | DoShapeChanged child
  | DoShapeReleased shape

fun exec :: "externals \<Rightarrow> operation \<Rightarrow> RigidBody \<Rightarrow> RigidBody option" where
  "exec X (DoSetMass m) s = SetMass X m s"
| "exec X (DoSetPosition p) s = Some (SetPosition X p s)"
| "exec X (DoSetRotation q) s = Some (SetRotation X q s)"
| "exec X (DoSetTransform p q) s = Some (SetTransform X p q s)"
| "exec X (DoSetLinearVelocity v) s = Some (SetLinearVelocity v s)"
| "exec X (DoSetLinearFactor v) s = Some (SetLinearFactor v s)"
| "exec X (DoSetLinearRestThreshold r) s = Some (SetLinearRestThreshold r s)"
| "exec X (DoSetLinearDamping r) s = Some (SetLinearDamping r s)"
| "exec X (DoSetAngularVelocity v) s = Some (SetAngularVelocity v s)"
| "exec X (DoSetAngularFactor v) s = Some (SetAngularFactor v s)"
| "exec X (DoSetAngularRestThreshold r) s = Some (SetAngularRestThreshold r s)"
| "exec X (DoSetAngularDamping r) s = Some (SetAngularDamping r s)"
| "exec X (DoSetFriction r) s = Some (SetFriction r s)"
| "exec X (DoSetRollingFriction r) s = Some (SetRollingFriction r s)"
| "exec X (DoSetRestitution r) s = Some (SetRestitution r s)"
| "exec X (DoSetContactProcessingThreshold r) s = Some (SetContactProcessingThreshold r s)"
| "exec X (DoSetCcdRadius r) s = Some (SetCcdRadius r s)"
| "exec X (DoSetCcdMotionThreshold r) s = Some (SetCcdMotionThreshold r s)"
| "exec X (DoSetUseGravity e) s = Some (SetUseGravity X e s)"
| "exec X (DoSetGravityOverride g) s = Some (SetGravityOverride X g s)"
| "exec X (DoSetKinematic e) s = SetKinematic X e s"
| "exec X (DoSetPhantom e) s = SetPhantom X e s"
| "exec X (DoSetFilter c) s = setFilter X c s"
| "exec X (DoSetCollisionEventMode m) s = Some (SetCollisionEventMode m s)"
| "exec X (DoApply a) s = Some (apply_to X a s)"
| "exec X DoResetForces s = Some (ResetForces X s)"
| "exec X DoActivate s = Some (Activate s)"
| "exec X DoReAddBodyToWorld s = ReAddBodyToWorld X s"
| "exec X (DoOnSetAttribute a) s = Some (OnSetAttribute a s)"
| "exec X DoApplyAttributes s = ApplyAttributes X s"
| "exec X (DoSetEnabled e) s = SetEnabled X e s"
| "exec X (DoSetNode n scene isRoot) s = SetNode X n scene isRoot s"
| "exec X (DoAddConstraint c) s = Some (AddConstraint c s)"
| "exec X (DoRemoveConstraint c) s = Some (RemoveConstraint c s)"
| "exec X DoReleaseBody s = Some (ReleaseBody s)"
| "exec X DoUpdateMass s = UpdateMass X s"
| "exec X DoUpdateGravity s = Some (UpdateGravity X s)"
| "exec X DoAddBodyToWorld s = AddBodyToWorld X s"
| "exec X DoRemoveBodyFromWorld s = Some (RemoveBodyFromWorld s)"
| "exec X DoGetWorldTransform s = Some (snd (getWorldTransform X s))"
| "exec X (DoSetWorldTransform t) s = setWorldTransform X t s"
| "exec X (DoApplyWorldTransform p q) s = ApplyWorldTransform p q s"
| "exec X (DoOnMarkedDirty threaded) s = OnMarkedDirty X threaded s"
| "exec X (DoHandleTargetPosition p) s = Some (HandleTargetPosition X p s)"
| "exec X (DoHandleTargetRotation q) s = Some (HandleTargetRotation X q s)"
| "exec X (DoShapeChanged c) s = ShapeChanged X c s"
| "exec X (DoShapeReleased sh) s = ShapeReleased X sh s"

text \<open>A sequence of operations, stopping at the first one that does not return.\<close>

fun run :: "externals \<Rightarrow> operation list \<Rightarrow> RigidBody \<Rightarrow> RigidBody option" where
  "run X [] s = Some s"
| "run X (op # ops) s = (case exec X op s of None \<Rightarrow> None | Some s' \<Rightarrow> run X ops s')"

text \<open>The shifted aggregate mirrors the source aggregate: the same children in the same
  order, each origin moved by the center of mass.\<close>

definition mirrored :: "RigidBody \<Rightarrow> bool" where
  "mirrored s =
     (shiftedCompoundShape s = map (shiftChild (centerOfMass s)) (compoundShape s))"

text \<open>What an operation may do to the two aggregates and the center of mass: leave the
  shifted aggregate and the center of mass alone (and the source aggregate too, unless
  there is no body afterwards), or leave the shifted aggregate a mirror of the source.\<close>

definition untouched :: "RigidBody \<Rightarrow> RigidBody \<Rightarrow> bool" where
  "untouched s s' =
     (compoundShape s' = compoundShape s \<and> shiftedCompoundShape s' = shiftedCompoundShape s \<and>
      centerOfMass s' = centerOfMass s \<and> (body s' = None) = (body s = None))"

definition rebuiltOrKept :: "RigidBody \<Rightarrow> RigidBody \<Rightarrow> bool" where
  "rebuiltOrKept s s' =
     (mirrored s' \<or>
      shiftedCompoundShape s' = shiftedCompoundShape s \<and> centerOfMass s' = centerOfMass s \<and>
      (compoundShape s' = compoundShape s \<or> body s' = None) \<and>
      (body s' = None \<or> body s \<noteq> None))"

section \<open>Verified properties\<close>

subsection \<open>The rounding of \<open>float\<close>\<close>

text \<open>The rounding is to a nearest multiple of the spacing, the spacing is a power of two
  times \<open>2^-149\<close>, and it is the spacing of the binade of the argument: above the
  subnormal range the argument lies between \<open>2^23\<close> and \<open>2^24\<close> spacings.\<close>

lemma roundHalfEven_nearest: "\<bar>of_int (roundHalfEven y) - y\<bar> \<le> 1 / 2"
  unfolding roundHalfEven_def Let_def by (auto; linarith)

lemma ulpOf_pos: "0 < u \<Longrightarrow> 0 < ulpOf k u a"
proof (induction k u a rule: ulpOf.induct)
  case (1 k u a)
  then show ?case by (subst ulpOf.simps) auto
qed

lemma ulpOf_power: "\<exists>i. k + i \<le> 253 \<and> ulpOf k u a = 2 ^ i * u" if "k \<le> 253"
  using that
proof (induction k u a rule: ulpOf.induct)
  case (1 k u a)
  show ?case
  proof (cases "253 \<le> k \<or> a < 16777216 * u")
    case True
    then have "ulpOf k u a = 2 ^ 0 * u" by (subst ulpOf.simps) simp
    with 1(2) show ?thesis by (intro exI [of _ 0]) simp
  next
    case False
    then have k: "k + 1 \<le> 253" by simp
    from 1(1) [OF False k] obtain i where i: "k + 1 + i \<le> 253" "ulpOf (k + 1) (2 * u) a = 2 ^ i * (2 * u)"
      by blast
    have "ulpOf k u a = ulpOf (k + 1) (2 * u) a"
      using False by (subst ulpOf.simps) simp
    with i show ?thesis by (intro exI [of _ "Suc i"]) simp
  qed
qed

lemma ulpOf_lower: "ulpOf k u a = u \<or> 8388608 * ulpOf k u a \<le> a"
proof (induction k u a rule: ulpOf.induct)
  case (1 k u a)
  show ?case
  proof (cases "253 \<le> k \<or> a < 16777216 * u")
    case True
    then show ?thesis by (subst ulpOf.simps) simp
  next
    case False
    have e: "ulpOf k u a = ulpOf (k + 1) (2 * u) a"
      using False by (subst ulpOf.simps) simp
    from 1 [OF False] False show ?thesis unfolding e by auto
  qed
qed

lemma ulpOf_upper: "k \<le> 253 \<Longrightarrow> a < 16777216 * (2 ^ (253 - k) * u) \<Longrightarrow> 0 < u \<Longrightarrow> a < 16777216 * ulpOf k u a"
proof (induction k u a rule: ulpOf.induct)
  case (1 k u a)
  show ?case
  proof (cases "253 \<le> k \<or> a < 16777216 * u")
    case True
    with 1(2,3) have "a < 16777216 * u" by auto
    with True show ?thesis by (subst ulpOf.simps) simp
  next
    case False
    have e: "ulpOf k u a = ulpOf (k + 1) (2 * u) a"
      using False by (subst ulpOf.simps) simp
    from False have k: "k + 1 \<le> 253" by simp
    have "253 - k = Suc (253 - (k + 1))"
      using k by simp
    then have "(2::real) ^ (253 - k) = 2 * 2 ^ (253 - (k + 1))"
      by (simp only: power_Suc)
    then have "a < 16777216 * (2 ^ (253 - (k + 1)) * (2 * u))"
      using 1(3) by simp
    from 1(1) [OF False k this] 1(4) show ?thesis unfolding e by simp
  qed
qed

lemma roundToFloat_nearest:
  "x \<noteq> 0 \<Longrightarrow> \<bar>roundToFloat x - x\<bar> \<le> ulpOf 0 (1 / 2 ^ 149) \<bar>x\<bar> / 2"
proof -
  assume "x \<noteq> 0"
  let ?u = "ulpOf 0 (1 / 2 ^ 149) \<bar>x\<bar>"
  have u: "0 < ?u" by (rule ulpOf_pos) simp
  have "\<bar>roundToFloat x - x\<bar> = \<bar>?u * of_int (roundHalfEven (x / ?u)) - ?u * (x / ?u)\<bar>"
    using u \<open>x \<noteq> 0\<close> by (simp add: roundToFloat_def Let_def)
  also have "\<dots> = ?u * \<bar>of_int (roundHalfEven (x / ?u)) - x / ?u\<bar>"
    using u by (simp add: abs_mult right_diff_distrib [symmetric] del: times_divide_eq_right)
  also have "\<dots> \<le> ?u * (1 / 2)"
    using u roundHalfEven_nearest [of "x / ?u"] by (intro mult_left_mono) simp_all
  finally show ?thesis by simp
qed

lemma roundToFloat_examples:
  "roundToFloat (1 / 3) = 11184811 / 33554432"
  "roundToFloat (1 / 10) = 13421773 / 134217728"
  "roundToFloat 16777217 = 16777216" "roundToFloat 16777219 = 16777220"
  "roundToFloat (1 / 2 ^ 149) = 1 / 2 ^ 149" "roundToFloat (1 / 2 ^ 150) = 0"
  "roundToFloat (3 / 2 ^ 150) = 2 / 2 ^ 149"
  by (simp_all add: roundToFloat_def ulpOf.simps roundHalfEven_def)

lemma float_values:
  "roundToFloat 0 = 0" "roundToFloat 1 = 1" "roundToFloat (- 1) = - 1"
  "roundToFloat 2 = 2" "roundToFloat (- 2) = - 2" "roundToFloat 3 = 3" "roundToFloat 4 = 4"
  by (simp_all add: roundToFloat_def ulpOf.simps roundHalfEven_def)

lemmas float_defs = fadd_def fsub_def float_values

subsection \<open>The loops of the mass update\<close>

lemma removeAllChildren_Nil [simp]: "removeAllChildren cs = []"
proof (induction cs rule: removeAllChildren.induct)
  case (1 cs)
  show ?case
  proof (cases "length cs \<noteq> 0")
    case True
    with 1 show ?thesis by (subst removeAllChildren.simps) simp
  next
    case False
    then show ?thesis by (subst removeAllChildren.simps) simp
  qed
qed

lemma fill_prefix:
  "k \<le> length xs \<Longrightarrow> foldl (\<lambda>m i. m[i := v]) xs [0..<k] = replicate k v @ drop k xs"
proof (induction k)
  case 0
  then show ?case by simp
next
  case (Suc k)
  then have k: "k < length xs" by simp
  have "foldl (\<lambda>m i. m[i := v]) xs [0..<Suc k] = (replicate k v @ drop k xs)[k := v]"
    using Suc by simp
  also have "\<dots> = replicate k v @ (drop k xs)[0 := v]"
    by (simp add: list_update_append)
  also have "drop k xs = xs ! k # drop (Suc k) xs"
    using k by (rule Cons_nth_drop_Suc [symmetric])
  also have "replicate k v @ (xs ! k # drop (Suc k) xs)[0 := v] = replicate (Suc k) v @ drop (Suc k) xs"
    by (simp only: list_update_code replicate_Suc replicate_app_Cons_same append_Cons)
  finally show ?case .
qed

lemma unitMasses_replicate: "unitMasses n = replicate n 1"
  using fill_prefix [of n "replicate n 0" 1] by (simp add: unitMasses_def)

lemma foldl_snoc_map: "foldl (\<lambda>acc i. acc @ [g i]) acc is = acc @ map g is"
  by (induction "is" arbitrary: acc) simp_all

lemma addShiftedChildren_map:
  "addShiftedChildren p cs acc = acc @ map (shiftChild p) cs"
proof -
  have "addShiftedChildren p cs acc = acc @ map (\<lambda>i. shiftChild p (cs ! i)) [0..<length cs]"
    by (simp add: addShiftedChildren_def addChildShape_def Let_def shiftChild_def foldl_snoc_map)
  also have "map (\<lambda>i. shiftChild p (cs ! i)) [0..<length cs] =
      map (shiftChild p) (map (\<lambda>i. cs ! i) [0..<length cs])"
    by (simp add: comp_def)
  also have "map (\<lambda>i. cs ! i) [0..<length cs] = cs"
    by (rule map_nth)
  finally show ?thesis .
qed

lemma foldl_emit:
  "foldl (\<lambda>s c. emit (f c) s) s cs = s\<lparr>calls := calls s @ map f cs\<rparr>"
  by (induction cs arbitrary: s) (simp_all add: emit_def)

subsection \<open>The mass update in closed form\<close>

lemma Activate_closed:
  "body s = Some b \<Longrightarrow>
   Activate s = s\<lparr>body := Some (b\<lparr>m_active := (m_active b \<or> mass s > 0)\<rparr>),
                  calls := calls s @ wakeCalls (mass s)\<rparr>"
  by (simp add: Activate_def emit_def wakeCalls_def)

lemma SetPosition_closed:
  "body s = Some b \<Longrightarrow>
   SetPosition X p s =
     s\<lparr>body := Some (b\<lparr>
          m_worldTransform := (m_worldTransform b)\<lparr>origin :=
             vadd p (rotate X (rotation (m_worldTransform b)) (centerOfMass s))\<rparr>,
          m_interpolationWorldTransform := (m_interpolationWorldTransform b)\<lparr>origin :=
             vadd p (rotate X (rotation (m_worldTransform b)) (centerOfMass s))\<rparr>,
          m_active := (m_active b \<or> mass s > 0)\<rparr>),
       calls := calls s @ [updateInertiaTensor] @ wakeCalls (mass s) @ [MarkNetworkUpdate]\<rparr>"
  by (simp add: SetPosition_def Let_def emit_def Activate_closed)

lemma useCompoundShape_collapses:
  "useCompoundShape X (length (compoundShape s)) (shiftedOf X s) = (\<not> collapses X s)"
proof -
  have "(length (compoundShape s) = 0 \<or> length (compoundShape s) > 1) =
      (length (compoundShape s) \<noteq> 1)"
    by arith
  then show ?thesis
    by (simp add: useCompoundShape_def collapses_def Let_def)
qed

lemma shiftedOf_nth0:
  "length (compoundShape s) = 1 \<Longrightarrow>
   m_childShape (shiftedOf X s ! 0) = m_childShape (compoundShape s ! 0)"
  by (cases "compoundShape s") (simp_all add: shiftedOf_def shiftChild_def)

lemma reapplyPosition_closed:
  "body s = Some b \<Longrightarrow>
   reapplyPosition X p s =
     s\<lparr>centerOfMass := p,
       body := Some (b\<lparr>
          m_worldTransform := (m_worldTransform b)\<lparr>origin :=
             vadd (vsub (origin (m_worldTransform b))
                        (rotate X (rotation (m_worldTransform b)) (centerOfMass s)))
                  (rotate X (rotation (m_worldTransform b)) p)\<rparr>,
          m_interpolationWorldTransform := (m_interpolationWorldTransform b)\<lparr>origin :=
             vadd (vsub (origin (m_worldTransform b))
                        (rotate X (rotation (m_worldTransform b)) (centerOfMass s)))
                  (rotate X (rotation (m_worldTransform b)) p)\<rparr>,
          m_active := (m_active b \<or> mass s > 0)\<rparr>),
       calls := calls s @ [updateInertiaTensor] @ wakeCalls (mass s) @ [MarkNetworkUpdate]\<rparr>"
  by (simp add: reapplyPosition_def Let_def SetPosition_closed GetPosition_def)

lemma setMassProps_closed:
  "body s = Some b \<Longrightarrow>
   setMassProps X s =
     s\<lparr>body := Some (b\<lparr>m_mass := mass s,
            m_localInertia := (if mass s > 0
               then calculateLocalInertia X (shiftedCompoundShape s) (mass s)
               else Vector3 0 0 0)\<rparr>),
       calls := calls s @ [updateInertiaTensor]\<rparr>"
  by (simp add: setMassProps_def Let_def emit_def modifyBody_def)

lemma applyConstraintFrames_closed:
  "applyConstraintFrames s =
     s\<lparr>calls := calls s @ (if node s \<noteq> None then map ApplyFrames (constraints s) else [])\<rparr>"
  by (simp add: applyConstraintFrames_def foldl_emit)

lemma UpdateMass_no_body: "body s = None \<Longrightarrow> UpdateMass X s = Some s"
  by (simp add: UpdateMass_def)

lemma UpdateMass_unfold:
  assumes "body s = Some b"
  shows "UpdateMass X s =
     (case customMaterialCallback X (\<not> collapses X s) (exposedShape X s) (physicsWorld s) of
        None \<Rightarrow> None
      | Some custom \<Rightarrow>
          Some (applyConstraintFrames (setMassProps X (reapplyPosition X (principalOrigin X s)
             (s\<lparr>shiftedCompoundShape := shiftedOf X s,
                body := Some (b\<lparr>m_collisionShape := exposedShape X s,
                                 m_collisionFlags := massFlags X s (m_collisionFlags b)\<rparr>)\<rparr>)))))"
proof -
  have sh: "addShiftedChildren p (compoundShape s) (removeAllChildren (shiftedCompoundShape s)) =
      map (shiftChild p) (compoundShape s)" for p
    by (simp add: addShiftedChildren_map)
  have po: "(if length (compoundShape s) \<noteq> 0
      then calculatePrincipalAxisTransform X (unitMasses (length (compoundShape s))) (compoundShape s)
      else Vector3 0 0 0) = principalOrigin X s"
    by (simp add: principalOrigin_def unitMasses_replicate)
  have um: "UpdateMass X s =
      (let shifted = shiftedOf X s;
           useCompound = useCompoundShape X (length (compoundShape s)) shifted;
           exposed = (if useCompound then CompoundShape
                      else ChildShape (m_childShape (shifted ! 0)))
       in (case customMaterialCallback X useCompound exposed (physicsWorld s) of
             None \<Rightarrow> None
           | Some custom \<Rightarrow>
               Some (applyConstraintFrames (setMassProps X (reapplyPosition X (principalOrigin X s)
                  (s\<lparr>shiftedCompoundShape := shifted,
                     body := Some (b\<lparr>m_collisionShape := exposed,
                        m_collisionFlags := (if custom
                           then m_collisionFlags b OR CF_CUSTOM_MATERIAL_CALLBACK X
                           else m_collisionFlags b AND NOT (CF_CUSTOM_MATERIAL_CALLBACK X))\<rparr>)\<rparr>))))))"
    unfolding UpdateMass_def Let_def sh po shiftedOf_def using assms by simp
  show ?thesis
  proof (cases "collapses X s")
    case True
    then have one: "length (compoundShape s) = 1"
      by (simp add: collapses_def)
    have ex: "exposedShape X s = ChildShape (m_childShape (shiftedOf X s ! 0))"
      using True by (simp add: exposedShape_def shiftedOf_nth0 [OF one])
    show ?thesis
      unfolding um Let_def useCompoundShape_collapses ex
      using True one
      by (auto simp: customMaterialCallback_def massFlags_def shiftedOf_nth0 [OF one]
          split: option.splits)
  next
    case False
    have ex: "exposedShape X s = CompoundShape"
      using False by (simp add: exposedShape_def)
    show ?thesis
      unfolding um Let_def useCompoundShape_collapses ex
      using False
      by (simp add: customMaterialCallback_def massFlags_def)
  qed
qed

lemma UpdateMass_closed:
  assumes "body s = Some b" and "UpdateMass X s = Some s'"
  shows "s' = s\<lparr>shiftedCompoundShape := shiftedOf X s,
                 centerOfMass := principalOrigin X s,
                 body := Some (massBody X s b),
                 calls := calls s @ massCalls s\<rparr>"
  using assms(2) unfolding UpdateMass_unfold [OF assms(1)]
  by (auto simp: reapplyPosition_closed setMassProps_closed applyConstraintFrames_closed
      massBody_def massOrigin_def massInertia_def massCalls_def split: option.splits)

lemma UpdateMass_total:
  "physicsWorld s \<noteq> None \<Longrightarrow> \<exists>s'. UpdateMass X s = Some s'"
  by (cases "body s")
     (auto simp: UpdateMass_no_body UpdateMass_unfold customMaterialCallback_def
        split: option.splits)

subsection \<open>Activation\<close>

lemma Activate_calls: "calls (Activate s) = calls s @ wake s"
  by (simp add: Activate_def emit_def wake_def split: option.splits)

lemma Activate_massless: "\<not> mass s > 0 \<Longrightarrow> Activate s = s"
  by (simp add: Activate_def split: option.splits)

lemma Activate_body: "(body (Activate s) = None) = (body s = None)"
  by (simp add: Activate_def emit_def split: option.splits)

lemma Activate_centerOfMass: "centerOfMass (Activate s) = centerOfMass s"
  by (simp add: Activate_def emit_def split: option.splits)

lemma solve_calls: "body s \<noteq> None \<Longrightarrow> calls (solve X c s) = calls s @ [Solver c]"
  by (auto simp: solve_def emit_def)

lemma apply_to_zero: "input a = ZERO \<Longrightarrow> apply_to X a s = s"
  by (cases a)
     (simp_all add: ApplyForce_def ApplyForceAt_def ApplyTorque_def ApplyImpulse_def
        ApplyImpulseAt_def ApplyTorqueImpulse_def)

lemma apply_to_nonzero:
  "body s \<noteq> None \<Longrightarrow> input a \<noteq> ZERO \<Longrightarrow> apply_to X a s = solve X (solverInput s a) (Activate s)"
  by (cases a)
     (simp_all add: ApplyForce_def ApplyForceAt_def ApplyTorque_def ApplyImpulse_def
        ApplyImpulseAt_def ApplyTorqueImpulse_def)

text \<open>
  C5. On a component whose body exists, an application of a force, impulse, torque or
  torque impulse with the zero vector as input changes nothing: no wake request, no
  solver call. With a nonzero input the member function first runs \<open>Activate\<close> and then
  makes its solver call, so that the calls made are the wake request, if the mass is
  positive, followed by the solver call. A body of mass zero gets no wake request from
  any application.
\<close>

theorem C5_apply:
  assumes "body s \<noteq> None"
  shows "(input a = ZERO \<longrightarrow> apply_to X a s = s) \<and>
         (input a \<noteq> ZERO \<longrightarrow>
            apply_to X a s = solve X (solverInput s a) (Activate s) \<and>
            calls (apply_to X a s) =
              calls s @ (if mass s > 0 then [activate] else []) @ [Solver (solverInput s a)]) \<and>
         (mass s = 0 \<longrightarrow> Activate s = s \<and>
            activate \<notin> set (drop (length (calls s)) (calls (apply_to X a s))))"
proof (intro conjI impI)
  assume "input a = ZERO"
  then show "apply_to X a s = s" by (rule apply_to_zero)
next
  assume nz: "input a \<noteq> ZERO"
  show eq: "apply_to X a s = solve X (solverInput s a) (Activate s)"
    using assms nz by (rule apply_to_nonzero)
  have "body (Activate s) \<noteq> None" using assms by (simp add: Activate_body)
  then show "calls (apply_to X a s) =
      calls s @ (if mass s > 0 then [activate] else []) @ [Solver (solverInput s a)]"
    using assms by (simp add: eq solve_calls Activate_calls wake_def)
next
  assume m: "mass s = 0"
  then show "Activate s = s" by (simp add: Activate_massless)
  show "activate \<notin> set (drop (length (calls s)) (calls (apply_to X a s)))"
  proof (cases "input a = ZERO")
    case True
    then show ?thesis by (simp add: apply_to_zero)
  next
    case False
    then show ?thesis
      using assms m by (simp add: apply_to_nonzero Activate_massless solve_calls)
  qed
qed

theorem C5_apply_witness:
  "body awake \<noteq> None \<and>
   apply_to X0 (Force ZERO) awake = awake \<and>
   calls (apply_to X0 (Impulse (Vector3 0 1 0)) awake) =
     [activate, Solver (applyCentralImpulse (Vector3 0 1 0))]"
proof -
  have b: "body awake \<noteq> None"
    by (simp add: awake_def resting_def)
  have nz: "input (Impulse (Vector3 0 1 0)) \<noteq> ZERO"
    by (simp add: ZERO_def)
  have z: "apply_to X0 (Force ZERO) awake = awake"
    using C5_apply [OF b, of "Force ZERO" X0] by simp
  have "calls (apply_to X0 (Impulse (Vector3 0 1 0)) awake) =
      calls awake @ (if mass awake > 0 then [activate] else []) @
        [Solver (solverInput awake (Impulse (Vector3 0 1 0)))]"
    using C5_apply [OF b, of "Impulse (Vector3 0 1 0)" X0] nz by blast
  then have "calls (apply_to X0 (Impulse (Vector3 0 1 0)) awake) =
      [activate, Solver (applyCentralImpulse (Vector3 0 1 0))]"
    by (simp add: awake_def resting_def RigidBody_new_def)
  with b z show ?thesis by blast
qed

subsection \<open>Gravity\<close>

text \<open>
  C3. With a physics world and a body present, \<open>UpdateGravity\<close> resolves the gravity of
  the body in three cases. Gravity not used: the body's gravity is the zero vector and
  the flag that disables world gravity is set. Gravity used and the override zero: the
  body's gravity is the world's and the flag is cleared. Gravity used and the override
  nonzero: the body's gravity is the override and the flag is set.
\<close>

theorem C3_gravity:
  assumes "physicsWorld s = Some world" and "body s = Some b"
  shows "\<exists>b'. body (UpdateGravity X s) = Some b' \<and>
    (\<not> useGravity s \<longrightarrow>
       m_gravity b' = ZERO \<and>
       m_rigidbodyFlags b' AND BT_DISABLE_WORLD_GRAVITY X = BT_DISABLE_WORLD_GRAVITY X) \<and>
    (useGravity s \<and> gravityOverride s = ZERO \<longrightarrow>
       m_gravity b' = worldGravity world \<and>
       m_rigidbodyFlags b' AND BT_DISABLE_WORLD_GRAVITY X = 0) \<and>
    (useGravity s \<and> gravityOverride s \<noteq> ZERO \<longrightarrow>
       m_gravity b' = gravityOverride s \<and>
       m_rigidbodyFlags b' AND BT_DISABLE_WORLD_GRAVITY X = BT_DISABLE_WORLD_GRAVITY X)"
  using assms
  by (auto simp: UpdateGravity_def ZERO_def Let_def and.assoc bit.conj_disj_distrib2)

theorem C3_gravity_witness:
  "map_option m_gravity (body (UpdateGravity X0 falling)) = Some (Vector3 0 (- 981 / 100) 0) \<and>
   map_option (\<lambda>b. m_rigidbodyFlags b AND 1) (body (UpdateGravity X0 falling)) = Some 0 \<and>
   map_option m_gravity (body (UpdateGravity X0 (falling\<lparr>useGravity := False\<rparr>))) =
     Some (Vector3 0 0 0) \<and>
   map_option (\<lambda>b. m_rigidbodyFlags b AND 1)
     (body (UpdateGravity X0 (falling\<lparr>useGravity := False\<rparr>))) = Some 1 \<and>
   map_option m_gravity
     (body (UpdateGravity X0 (falling\<lparr>gravityOverride := Vector3 0 (- 20) 0\<rparr>))) =
     Some (Vector3 0 (- 20) 0) \<and>
   map_option (\<lambda>b. m_rigidbodyFlags b AND 1)
     (body (UpdateGravity X0 (falling\<lparr>gravityOverride := Vector3 0 (- 20) 0\<rparr>))) = Some 1"
  using C3_gravity [of falling world0 "body0 0 CompoundShape ZERO" X0]
        C3_gravity [of "falling\<lparr>useGravity := False\<rparr>" world0 "body0 0 CompoundShape ZERO" X0]
        C3_gravity [of "falling\<lparr>gravityOverride := Vector3 0 (- 20) 0\<rparr>" world0
                       "body0 0 CompoundShape ZERO" X0]
  by (auto simp: falling_def resting_def RigidBody_new_def world0_def X0_def ZERO_def)

subsection \<open>A component without body\<close>

lemma getters_default:
  assumes "body s = None"
  shows "GetPosition X s = ZERO" "GetRotation s = IDENTITY" "GetLinearVelocity s = ZERO"
    "GetAngularVelocity s = ZERO" "GetLinearFactor s = ZERO" "GetAngularFactor s = ZERO"
    "GetVelocityAtPoint X p s = ZERO" "GetLinearRestThreshold s = 0" "GetAngularRestThreshold s = 0"
    "GetLinearDamping s = 0" "GetAngularDamping s = 0" "GetFriction s = 0" "GetRollingFriction s = 0"
    "GetRestitution s = 0" "GetContactProcessingThreshold s = 0" "GetCcdRadius s = 0"
    "GetCcdMotionThreshold s = 0" "\<not> IsActive s"
  using assms
  by (simp_all add: GetPosition_def GetRotation_def GetLinearVelocity_def GetAngularVelocity_def
      GetLinearFactor_def GetAngularFactor_def GetVelocityAtPoint_def GetLinearRestThreshold_def
      GetAngularRestThreshold_def GetLinearDamping_def GetAngularDamping_def GetFriction_def
      GetRollingFriction_def GetRestitution_def GetContactProcessingThreshold_def GetCcdRadius_def
      GetCcdMotionThreshold_def IsActive_def)

lemma onBody_None: "body s = None \<Longrightarrow> onBody f s = s"
  by (simp add: onBody_def)

lemma setters_noop:
  assumes "body s = None"
  shows "SetPosition X p s = s" "SetRotation X q s = s" "SetTransform X p q s = s"
    "SetLinearVelocity v s = s" "SetAngularVelocity v s = s" "SetLinearFactor v s = s"
    "SetAngularFactor v s = s" "SetLinearRestThreshold r s = s" "SetAngularRestThreshold r s = s"
    "SetLinearDamping r s = s" "SetAngularDamping r s = s" "SetFriction r s = s"
    "SetRollingFriction r s = s" "SetRestitution r s = s" "SetContactProcessingThreshold r s = s"
    "SetCcdRadius r s = s" "SetCcdMotionThreshold r s = s" "ResetForces X s = s"
  using assms
  by (simp_all add: SetPosition_def SetRotation_def SetTransform_def SetLinearVelocity_def
      SetAngularVelocity_def SetLinearFactor_def SetAngularFactor_def SetLinearRestThreshold_def
      SetAngularRestThreshold_def SetLinearDamping_def SetAngularDamping_def SetFriction_def
      SetRollingFriction_def SetRestitution_def SetContactProcessingThreshold_def SetCcdRadius_def
      SetCcdMotionThreshold_def ResetForces_def onBody_None)

lemma apply_to_None: "body s = None \<Longrightarrow> apply_to X a s = s"
  by (cases a)
     (simp_all add: ApplyForce_def ApplyForceAt_def ApplyTorque_def ApplyImpulse_def
        ApplyImpulseAt_def ApplyTorqueImpulse_def)

text \<open>
  C10. While no simulated body exists, every query accessor returns its fixed default:
  the zero vector for position, velocities, factors and the velocity at a point, the
  identity quaternion for the rotation, zero for every scalar property, false for
  \<open>IsActive\<close>. In the same state every setter that targets the body, every application
  of a force, impulse or torque, and \<open>ResetForces\<close> return the component unchanged.
\<close>

theorem C10_no_body:
  assumes "body s = None"
  shows "GetPosition X s = ZERO \<and> GetLinearVelocity s = ZERO \<and> GetAngularVelocity s = ZERO \<and>
    GetLinearFactor s = ZERO \<and> GetAngularFactor s = ZERO \<and> GetVelocityAtPoint X p s = ZERO \<and>
    GetRotation s = IDENTITY \<and>
    GetFriction s = 0 \<and> GetRollingFriction s = 0 \<and> GetLinearDamping s = 0 \<and>
    GetAngularDamping s = 0 \<and> GetRestitution s = 0 \<and> GetLinearRestThreshold s = 0 \<and>
    GetAngularRestThreshold s = 0 \<and> GetContactProcessingThreshold s = 0 \<and>
    GetCcdRadius s = 0 \<and> GetCcdMotionThreshold s = 0 \<and>
    \<not> IsActive s \<and>
    SetPosition X p s = s \<and> SetRotation X q s = s \<and> SetTransform X p q s = s \<and>
    SetLinearVelocity v s = s \<and> SetAngularVelocity v s = s \<and>
    SetLinearFactor v s = s \<and> SetAngularFactor v s = s \<and>
    SetLinearDamping r s = s \<and> SetAngularDamping r s = s \<and>
    SetLinearRestThreshold r s = s \<and> SetAngularRestThreshold r s = s \<and>
    SetFriction r s = s \<and> SetRollingFriction r s = s \<and> SetRestitution r s = s \<and>
    SetContactProcessingThreshold r s = s \<and> SetCcdRadius r s = s \<and>
    SetCcdMotionThreshold r s = s \<and>
    apply_to X a s = s \<and> ResetForces X s = s"
  by (simp only: getters_default [OF assms] setters_noop [OF assms] apply_to_None [OF assms]
        simp_thms)

theorem C10_no_body_witness:
  "body RigidBody_new = None \<and> GetPosition X0 RigidBody_new = Vector3 0 0 0 \<and>
   GetRotation RigidBody_new = Quaternion 1 0 0 0 \<and> GetFriction RigidBody_new = 0 \<and>
   \<not> IsActive RigidBody_new \<and>
   SetLinearVelocity (Vector3 1 2 3) RigidBody_new = RigidBody_new \<and>
   apply_to X0 (Impulse (Vector3 0 1 0)) RigidBody_new = RigidBody_new"
proof -
  have b: "body RigidBody_new = None"
    by (simp add: RigidBody_new_def)
  show ?thesis
    using b C10_no_body [OF b, of X0 "Vector3 0 0 0" "Quaternion 1 0 0 0" "Vector3 1 2 3" 0
      "Impulse (Vector3 0 1 0)"]
    by (simp add: ZERO_def IDENTITY_def)
qed

subsection \<open>Removing a constraint\<close>

lemmas run_defs = X0_def node0_def world0_def body0_def attached_def RigidBody_new_def SetNode_def OnNodeSet_def
  AddBodyToWorld_def createBody_def insertBody_def UpdateMass_def useCompoundShape_def
  customMaterialCallback_def reapplyPosition_def setMassProps_def applyConstraintFrames_def UpdateGravity_def RemoveBodyFromWorld_def
  emit_def modifyBody_def setRegistered_def NotifyRigidBody_def addChildShape_def removeChildShape_def
  IsEnabledEffective_def Activate_def SetLinearVelocity_def SetAngularVelocity_def SetPosition_def GetPosition_def
  unitMasses_def addShiftedChildren_def centroid_def ZERO_def IDENTITY_def Equals_def Let_def
  float_defs

text \<open>
  C8, as stated, fails: an existing body of mass zero that is asleep stays asleep when a
  constraint is removed from it, and no wake request is made.
\<close>

theorem C8_counterexample:
  "body asleep \<noteq> None \<and> constraints asleep = [7] \<and> \<not> IsActive asleep \<and>
   constraints (RemoveConstraint 7 asleep) = [] \<and>
   \<not> IsActive (RemoveConstraint 7 asleep) \<and>
   calls (RemoveConstraint 7 asleep) = calls asleep"
  by (simp add: asleep_def held_def AddConstraint_def RemoveConstraint_def IsActive_def run_defs)

text \<open>
  C8, amended. On a component whose body exists, \<open>RemoveConstraint\<close> erases the first
  occurrence of the constraint from the list and then runs \<open>Activate\<close>: the body is
  woken when the mass is positive, and nothing else happens to a body of mass zero.
\<close>

theorem C8_remove_constraint:
  assumes "body s \<noteq> None"
  shows "constraints (RemoveConstraint c s) = remove1 c (constraints s) \<and>
    (mass s > 0 \<longrightarrow>
       IsActive (RemoveConstraint c s) \<and> calls (RemoveConstraint c s) = calls s @ [activate]) \<and>
    (\<not> mass s > 0 \<longrightarrow> RemoveConstraint c s = s\<lparr>constraints := remove1 c (constraints s)\<rparr>)"
  using assms
  by (auto simp: RemoveConstraint_def Activate_def emit_def IsActive_def split: option.splits)

theorem C8_remove_constraint_witness:
  "body (AddConstraint 7 awake) \<noteq> None \<and>
   constraints (RemoveConstraint 7 (AddConstraint 7 awake)) = [] \<and>
   IsActive (RemoveConstraint 7 (AddConstraint 7 awake)) \<and>
   calls (RemoveConstraint 7 (AddConstraint 7 awake)) = [activate]"
proof -
  have b: "body (AddConstraint 7 awake) \<noteq> None"
    by (simp add: AddConstraint_def awake_def resting_def)
  have m: "mass (AddConstraint 7 awake) > 0"
    by (simp add: AddConstraint_def awake_def resting_def)
  show ?thesis
    using b m C8_remove_constraint [OF b, of 7]
    by (simp add: AddConstraint_def awake_def resting_def RigidBody_new_def)
qed

subsection \<open>The exposed collision shape\<close>

lemmas mass_defs = UpdateMass_def useCompoundShape_def customMaterialCallback_def
  reapplyPosition_def setMassProps_def applyConstraintFrames_def SetPosition_def GetPosition_def
  Activate_def emit_def modifyBody_def unitMasses_def addShiftedChildren_def addChildShape_def
  centroid_def X0_def body0_def world0_def falling_def resting_def RigidBody_new_def
  ZERO_def IDENTITY_def Equals_def Let_def float_defs

lemma UpdateMass_oneShape:
  "map_option (\<lambda>s'. (shiftedCompoundShape s', centerOfMass s', map_option m_collisionShape (body s')))
     (UpdateMass X0 oneShape) =
   Some ([\<lparr>m_transform = \<lparr>origin = Vector3 0 0 0, rotation = Quaternion 1 0 0 0\<rparr>, m_childShape = 1\<rparr>],
         Vector3 1 0 0, Some (ChildShape 1))"
  by (simp add: oneShape_def mass_defs)

lemma UpdateMass_twoShapes:
  "map_option (\<lambda>s'. (shiftedCompoundShape s', centerOfMass s', map_option m_collisionShape (body s')))
     (UpdateMass X0 twoShapes) =
   Some ([\<lparr>m_transform = \<lparr>origin = Vector3 (- 1) 0 0, rotation = Quaternion 1 0 0 0\<rparr>, m_childShape = 1\<rparr>,
          \<lparr>m_transform = \<lparr>origin = Vector3 1 0 0, rotation = Quaternion 1 0 0 0\<rparr>, m_childShape = 2\<rparr>],
         Vector3 2 0 0, Some CompoundShape)"
  by (simp add: twoShapes_def mass_defs)

lemma UpdateMass_tilted:
  "map_option (\<lambda>s'. (shiftedCompoundShape s', map_option m_collisionShape (body s')))
     (UpdateMass X0 tilted) =
   Some ([\<lparr>m_transform = \<lparr>origin = Vector3 0 0 0, rotation = Quaternion 1 (1 / 2 ^ 21) 0 0\<rparr>,
           m_childShape = 1\<rparr>],
         Some (ChildShape 1))"
  by (simp add: tilted_def mass_defs)

text \<open>
  C6, as stated, fails: a shifted transform that is not the identity can still expose
  the single child. The source compares with \<open>Equals\<close>, which accepts a difference of up
  to \<open>0.000001\<close> in each component. The body with one shape at \<open>(1, 0, 0)\<close> tilted by
  the quaternion \<open>(1, 2^-21, 0, 0)\<close> has, after the mass update, one shifted child with
  origin zero and that rotation, which is not the identity rotation, and the body is
  given the child shape.
\<close>

theorem C6_counterexample:
  "body tilted \<noteq> None \<and> length (compoundShape tilted) = 1 \<and>
   map_option (\<lambda>s'. map m_transform (shiftedCompoundShape s')) (UpdateMass X0 tilted) =
     Some [\<lparr>origin = Vector3 0 0 0, rotation = Quaternion 1 (1 / 2 ^ 21) 0 0\<rparr>] \<and>
   \<lparr>origin = Vector3 0 0 0, rotation = Quaternion 1 (1 / 2 ^ 21) 0 0\<rparr> \<noteq>
     \<lparr>origin = ZERO, rotation = IDENTITY\<rparr> \<and>
   map_option (\<lambda>s'. map_option m_collisionShape (body s')) (UpdateMass X0 tilted) =
     Some (Some (ChildShape 1))"
  by (simp add: tilted_def mass_defs)

text \<open>
  C6, amended. After the mass update of a component whose body exists, the collision
  shape given to the body is the single child shape exactly when the source aggregate
  has one child and the shifted transform of that child passes the two comparisons of
  the source, \<open>Equals\<close> of its origin with the zero vector and \<open>Equals\<close> of its rotation
  with the identity; in every other case (no child, several children, a comparison
  that fails) it is the shifted compound shape. The comparisons are \<open>Vector3::Equals\<close>
  and \<open>Quaternion::Equals\<close>, defined outside RigidBody.cpp, which compare with a
  tolerance. In particular, with comparisons that accept equal arguments, one child
  whose shifted transform is the identity is exposed. The update returns whenever the
  physics world is there.
\<close>

theorem C6_shape_collapse:
  assumes "body s = Some b"
  shows "(physicsWorld s \<noteq> None \<longrightarrow> UpdateMass X s \<noteq> None) \<and>
    (UpdateMass X s = Some s' \<longrightarrow>
       (\<exists>b'. body s' = Some b' \<and>
          m_collisionShape b' =
            (if length (compoundShape s') = 1 \<and>
                vecEquals X (origin (m_transform (shiftedCompoundShape s' ! 0))) ZERO \<and>
                quatEquals X (rotation (m_transform (shiftedCompoundShape s' ! 0))) IDENTITY
             then ChildShape (m_childShape (shiftedCompoundShape s' ! 0))
             else CompoundShape) \<and>
          (length (compoundShape s') = 1 \<and>
           m_transform (shiftedCompoundShape s' ! 0) = \<lparr>origin = ZERO, rotation = IDENTITY\<rparr> \<and>
           vecEquals X ZERO ZERO \<and> quatEquals X IDENTITY IDENTITY \<longrightarrow>
             m_collisionShape b' = ChildShape (m_childShape (shiftedCompoundShape s' ! 0)))))"
proof (intro conjI impI)
  assume "physicsWorld s \<noteq> None"
  then show "UpdateMass X s \<noteq> None"
    using UpdateMass_total [of s X] by auto
next
  assume "UpdateMass X s = Some s'"
  note cl = UpdateMass_closed [OF assms this]
  have sh: "shiftedCompoundShape s' = shiftedOf X s" and co: "compoundShape s' = compoundShape s"
    and bo: "body s' = Some (massBody X s b)"
    by (simp_all add: cl)
  have "m_collisionShape (massBody X s b) = exposedShape X s"
    by (simp add: massBody_def)
  also have "\<dots> = (if length (compoundShape s) = 1 \<and>
        vecEquals X (origin (m_transform (shiftedOf X s ! 0))) ZERO \<and>
        quatEquals X (rotation (m_transform (shiftedOf X s ! 0))) IDENTITY
      then ChildShape (m_childShape (shiftedOf X s ! 0))
      else CompoundShape)"
    by (simp add: exposedShape_def collapses_def shiftedOf_nth0)
  finally have e: "m_collisionShape (massBody X s b) =
      (if length (compoundShape s) = 1 \<and>
          vecEquals X (origin (m_transform (shiftedOf X s ! 0))) ZERO \<and>
          quatEquals X (rotation (m_transform (shiftedOf X s ! 0))) IDENTITY
       then ChildShape (m_childShape (shiftedOf X s ! 0))
       else CompoundShape)" .
  have i: "length (compoundShape s) = 1 \<and>
      m_transform (shiftedOf X s ! 0) = \<lparr>origin = ZERO, rotation = IDENTITY\<rparr> \<and>
      vecEquals X ZERO ZERO \<and> quatEquals X IDENTITY IDENTITY \<longrightarrow>
      m_collisionShape (massBody X s b) = ChildShape (m_childShape (shiftedOf X s ! 0))"
    unfolding e by simp
  from e i show "\<exists>b'. body s' = Some b' \<and>
          m_collisionShape b' =
            (if length (compoundShape s') = 1 \<and>
                vecEquals X (origin (m_transform (shiftedCompoundShape s' ! 0))) ZERO \<and>
                quatEquals X (rotation (m_transform (shiftedCompoundShape s' ! 0))) IDENTITY
             then ChildShape (m_childShape (shiftedCompoundShape s' ! 0))
             else CompoundShape) \<and>
          (length (compoundShape s') = 1 \<and>
           m_transform (shiftedCompoundShape s' ! 0) = \<lparr>origin = ZERO, rotation = IDENTITY\<rparr> \<and>
           vecEquals X ZERO ZERO \<and> quatEquals X IDENTITY IDENTITY \<longrightarrow>
             m_collisionShape b' = ChildShape (m_childShape (shiftedCompoundShape s' ! 0)))"
    unfolding sh co bo by blast
qed

theorem C6_shape_collapse_witness:
  "body oneShape \<noteq> None \<and> physicsWorld oneShape \<noteq> None \<and>
   UpdateMass X0 oneShape \<noteq> None \<and>
   map_option (\<lambda>s'. length (compoundShape s')) (UpdateMass X0 oneShape) = Some 1 \<and>
   map_option (\<lambda>s'. m_transform (shiftedCompoundShape s' ! 0)) (UpdateMass X0 oneShape) =
     Some \<lparr>origin = ZERO, rotation = IDENTITY\<rparr> \<and>
   vecEquals X0 ZERO ZERO \<and> quatEquals X0 IDENTITY IDENTITY \<and>
   map_option (\<lambda>s'. map_option m_collisionShape (body s')) (UpdateMass X0 oneShape) =
     Some (Some (ChildShape 1)) \<and>
   map_option (\<lambda>s'. map_option m_collisionShape (body s')) (UpdateMass X0 twoShapes) =
     Some (Some CompoundShape)"
proof -
  have b: "body oneShape = Some (body0 0 CompoundShape ZERO)"
    by (simp add: oneShape_def falling_def resting_def)
  have w: "physicsWorld oneShape \<noteq> None"
    by (simp add: oneShape_def falling_def)
  have r: "vecEquals X0 ZERO ZERO" "quatEquals X0 IDENTITY IDENTITY"
    by (simp_all add: X0_def ZERO_def IDENTITY_def Equals_def)
  have total: "UpdateMass X0 oneShape \<noteq> None"
    using C6_shape_collapse [OF b, of X0] w by blast
  then obtain s' where u: "UpdateMass X0 oneShape = Some s'"
    by blast
  have sh: "shiftedCompoundShape s' =
      [\<lparr>m_transform = \<lparr>origin = ZERO, rotation = IDENTITY\<rparr>, m_childShape = 1\<rparr>]"
    using UpdateMass_oneShape u by (simp add: ZERO_def IDENTITY_def)
  have c: "length (compoundShape s') = 1"
    using u b UpdateMass_closed [OF b u] by (simp add: oneShape_def)
  obtain b' where b': "body s' = Some b'"
      "length (compoundShape s') = 1 \<and>
       m_transform (shiftedCompoundShape s' ! 0) = \<lparr>origin = ZERO, rotation = IDENTITY\<rparr> \<and>
       vecEquals X0 ZERO ZERO \<and> quatEquals X0 IDENTITY IDENTITY \<longrightarrow>
       m_collisionShape b' = ChildShape (m_childShape (shiftedCompoundShape s' ! 0))"
    using C6_shape_collapse [OF b, of X0 s'] u by blast
  from b' c sh r have "m_collisionShape b' = ChildShape 1"
    by simp
  with b' u c sh have 1: "map_option (\<lambda>s'. length (compoundShape s')) (UpdateMass X0 oneShape) = Some 1"
      "map_option (\<lambda>s'. m_transform (shiftedCompoundShape s' ! 0)) (UpdateMass X0 oneShape) =
         Some \<lparr>origin = ZERO, rotation = IDENTITY\<rparr>"
      "map_option (\<lambda>s'. map_option m_collisionShape (body s')) (UpdateMass X0 oneShape) =
         Some (Some (ChildShape 1))"
    by simp_all
  have 2: "map_option (\<lambda>s'. map_option m_collisionShape (body s')) (UpdateMass X0 twoShapes) =
     Some (Some CompoundShape)"
    using UpdateMass_twoShapes by (auto simp: map_option_case split: option.splits)
  from b w total r 1 2 show ?thesis by simp
qed

subsection \<open>The rebuild, step by step\<close>

lemma UpdateGravity_closed:
  "physicsWorld s = Some world \<Longrightarrow> body s = Some b \<Longrightarrow>
   UpdateGravity X s = s\<lparr>body := Some (gravityBody X s world b)\<rparr>"
  by (simp add: UpdateGravity_def gravityBody_def Let_def ZERO_def)

lemma RemoveBodyFromWorld_closed:
  "physicsWorld s = Some world \<Longrightarrow> body s \<noteq> None \<Longrightarrow>
   RemoveBodyFromWorld s =
     (if inWorld s
      then s\<lparr>physicsWorld := Some (world\<lparr>registered := None\<rparr>), inWorld := False,
             calls := calls s @ [removeRigidBody]\<rparr>
      else s)"
  by (simp add: RemoveBodyFromWorld_def setRegistered_def emit_def)

lemma foldl_NotifyRigidBody:
  "foldl (\<lambda>s c. NotifyRigidBody c s) s cs =
   s\<lparr>compoundShape :=
        foldl (\<lambda>sh c. addChildShape (m_transform c) (m_childShape c)
                  (removeChildShape (m_childShape c) sh)) (compoundShape s) cs\<rparr>"
  by (induction cs arbitrary: s) (simp_all add: NotifyRigidBody_def)

lemma foldl_calls:
  "foldl (\<lambda>s c. s\<lparr>calls := calls s @ [f c]\<rparr>) s cs = s\<lparr>calls := calls s @ map f cs\<rparr>"
  by (induction cs arbitrary: s) simp_all

lemma createBody_closed:
  "node s = Some n \<Longrightarrow>
   createBody X s =
     Some (s\<lparr>body := Some (newRigidBody X (mass s) CompoundShape (Vector3 0 0 0)),
             hasSmoothedTransform := (hasSmoothedTransform s \<or> nodeSmoothedTransform n),
             compoundShape :=
               foldl (\<lambda>sh c. addChildShape (m_transform c) (m_childShape c)
                         (removeChildShape (m_childShape c) sh)) (compoundShape s) (nodeShapes n),
             calls := calls s @ createCalls n\<rparr>)"
  by (simp add: createBody_def Let_def emit_def foldl_NotifyRigidBody foldl_calls createCalls_def)

lemma createBody_None: "node s = None \<Longrightarrow> createBody X s = None"
  by (simp add: createBody_def)

lemma insertBody_unfold:
  "insertBody X s =
     (let s = modifyBody (flagsBody X s) s
      in if \<not> IsEnabledEffective s then s
         else
           let s = emit (addRigidBody (collisionLayer s) (collisionMask s))
                     (setRegistered (Some (collisionLayer s, collisionMask s)) s);
               s = s\<lparr>inWorld := True, readdBody := False\<rparr>
           in if mass s > 0 then Activate s
              else SetAngularVelocity ZERO (SetLinearVelocity ZERO s))"
proof -
  have "flagsBody X s = (\<lambda>b.
      let flags = m_collisionFlags b;
          flags = (if phantom s then flags OR CF_NO_CONTACT_RESPONSE X
                   else flags AND NOT (CF_NO_CONTACT_RESPONSE X));
          flags = (if kinematic s then flags OR CF_KINEMATIC_OBJECT X
                   else flags AND NOT (CF_KINEMATIC_OBJECT X))
      in b\<lparr>m_collisionFlags := flags\<rparr>)"
    by (rule ext) (simp add: flagsBody_def Let_def)
  then show ?thesis
    unfolding insertBody_def by simp
qed

lemma insertBody_closed:
  assumes b: "body s = Some b"
  shows "insertBody X s =
     (if IsEnabledEffective s
      then s\<lparr>body := Some (insertedBody s (flagsBody X s b)),
             physicsWorld :=
               map_option (\<lambda>world. world\<lparr>registered := Some (collisionLayer s, collisionMask s)\<rparr>)
                 (physicsWorld s),
             inWorld := True, readdBody := False,
             calls := calls s @ insertCalls s\<rparr>
      else s\<lparr>body := Some (flagsBody X s b)\<rparr>)"
proof -
  let ?f = "s\<lparr>body := Some (flagsBody X s b)\<rparr>"
  have m: "modifyBody (flagsBody X s) s = ?f"
    using b by (simp add: modifyBody_def)
  have e: "IsEnabledEffective ?f = IsEnabledEffective s"
    by (simp add: IsEnabledEffective_def)
  show ?thesis
  proof (cases "IsEnabledEffective s")
    case False
    then show ?thesis
      unfolding insertBody_unfold m by (simp add: e)
  next
    case True
    show ?thesis
    proof (cases "mass s > 0")
      case pos: True
      show ?thesis
        unfolding insertBody_unfold m using True pos
        by (simp add: e Let_def setRegistered_def emit_def Activate_def insertedBody_def
            insertCalls_def)
    next
      case nonpos: False
      show ?thesis
        unfolding insertBody_unfold m using True nonpos
        by (simp add: e Let_def setRegistered_def emit_def Activate_def SetLinearVelocity_def
            SetAngularVelocity_def insertedBody_def insertCalls_def)
    qed
  qed
qed

lemma rebuilt_closed:
  assumes "physicsWorld s = Some world" and "body s = Some b"
  shows "insertBody X (UpdateGravity X (massed X s b)) =
     (if IsEnabledEffective s
      then s\<lparr>shiftedCompoundShape := shiftedOf X s,
             centerOfMass := principalOrigin X s,
             body := Some (insertedBody s (flagsBody X s (gravityBody X s world (massBody X s b)))),
             physicsWorld := Some (world\<lparr>registered := Some (collisionLayer s, collisionMask s)\<rparr>),
             inWorld := True, readdBody := False,
             calls := calls s @ massCalls s @ insertCalls s\<rparr>
      else s\<lparr>shiftedCompoundShape := shiftedOf X s,
             centerOfMass := principalOrigin X s,
             body := Some (flagsBody X s (gravityBody X s world (massBody X s b))),
             calls := calls s @ massCalls s\<rparr>)"
proof -
  let ?m = "massed X s b"
  have wm: "physicsWorld ?m = Some world"
    using assms(1) by (simp add: massed_def)
  have bm: "body ?m = Some (massBody X s b)"
    by (simp add: massed_def)
  have gb: "gravityBody X ?m = gravityBody X s"
    by (rule ext)+ (simp add: gravityBody_def massed_def)
  have g: "UpdateGravity X ?m = ?m\<lparr>body := Some (gravityBody X s world (massBody X s b))\<rparr>"
    using UpdateGravity_closed [OF wm bm, of X] by (simp only: gb)
  let ?g = "?m\<lparr>body := Some (gravityBody X s world (massBody X s b))\<rparr>"
  have e: "IsEnabledEffective ?g = IsEnabledEffective s"
    by (simp add: IsEnabledEffective_def massed_def)
  have f: "flagsBody X ?g = flagsBody X s"
    by (rule ext) (simp add: flagsBody_def massed_def)
  have i: "insertedBody ?g = insertedBody s"
    by (rule ext) (simp add: insertedBody_def massed_def)
  have c: "insertCalls ?g = insertCalls s"
    by (simp add: insertCalls_def massed_def)
  have bg: "body ?g = Some (gravityBody X s world (massBody X s b))"
    by simp
  show ?thesis
    unfolding g insertBody_closed [OF bg] e f i c
    using assms(1) by (simp add: massed_def)
qed

lemma UpdateMass_world:
  assumes "physicsWorld s \<noteq> None" and "body s = Some b"
  shows "UpdateMass X s = Some (massed X s b)"
proof -
  obtain s' where u: "UpdateMass X s = Some s'"
    using UpdateMass_total [OF assms(1)] by blast
  show ?thesis
    using UpdateMass_closed [OF assms(2) u] u by (simp add: massed_def)
qed

lemma AddBodyToWorld_no_world: "physicsWorld s = None \<Longrightarrow> AddBodyToWorld X s = Some s"
  by (simp add: AddBodyToWorld_def)

lemma AddBodyToWorld_crash:
  "physicsWorld s \<noteq> None \<Longrightarrow> body s = None \<Longrightarrow> node s = None \<Longrightarrow>
   AddBodyToWorld X s = None"
  by (simp add: AddBodyToWorld_def createBody_None)

lemma AddBodyToWorld_existing:
  assumes "physicsWorld s = Some world" and "body s = Some b"
  shows "AddBodyToWorld X s =
     Some (insertBody X (UpdateGravity X (massed X (RemoveBodyFromWorld (clampMass s)) b)))"
proof -
  let ?s0 = "clampMass s"
  have w0: "physicsWorld ?s0 = Some world" and b0: "body ?s0 = Some b"
    using assms by (simp_all add: clampMass_def)
  have b1: "body (RemoveBodyFromWorld ?s0) = Some b"
    and w1: "physicsWorld (RemoveBodyFromWorld ?s0) \<noteq> None"
    using w0 b0 by (simp_all add: RemoveBodyFromWorld_closed)
  show ?thesis
    using assms b0 UpdateMass_world [OF w1 b1, of X]
    by (simp add: AddBodyToWorld_def clampMass_def [symmetric])
qed

lemma AddBodyToWorld_fresh:
  assumes "physicsWorld s = Some world" and "body s = None" and "node s = Some n"
  shows "AddBodyToWorld X s =
     Some (insertBody X (UpdateGravity X
        (massed X (created X n (clampMass s))
           (newRigidBody X (mass (clampMass s)) CompoundShape (Vector3 0 0 0)))))"
proof -
  let ?s0 = "clampMass s"
  have w0: "physicsWorld ?s0 = Some world" and b0: "body ?s0 = None" and n0: "node ?s0 = Some n"
    using assms by (simp_all add: clampMass_def)
  have c: "createBody X ?s0 = Some (created X n ?s0)"
    using createBody_closed [OF n0, of X] by (simp add: created_def)
  have b1: "body (created X n ?s0) =
      Some (newRigidBody X (mass ?s0) CompoundShape (Vector3 0 0 0))"
    and w1: "physicsWorld (created X n ?s0) \<noteq> None"
    using w0 by (simp_all add: created_def)
  show ?thesis
    using assms b0 c UpdateMass_world [OF w1 b1, of X]
    by (simp add: AddBodyToWorld_def clampMass_def [symmetric] Let_def)
qed

lemma AddBodyToWorld_total:
  assumes "physicsWorld s = None \<or> body s \<noteq> None \<or> node s \<noteq> None"
  shows "\<exists>s'. AddBodyToWorld X s = Some s'"
proof (cases "physicsWorld s")
  case None
  then show ?thesis by (simp add: AddBodyToWorld_no_world)
next
  case (Some world)
  show ?thesis
  proof (cases "body s")
    case (Some b)
    with \<open>physicsWorld s = Some world\<close> show ?thesis
      by (simp add: AddBodyToWorld_existing)
  next
    case None
    with assms \<open>physicsWorld s = Some world\<close> obtain n where "node s = Some n"
      by auto
    with None \<open>physicsWorld s = Some world\<close> show ?thesis
      by (simp add: AddBodyToWorld_fresh)
  qed
qed

lemma insertBody_mass [simp]: "mass (insertBody X s) = mass s"
  by (simp add: insertBody_def modifyBody_def Let_def setRegistered_def emit_def Activate_def
      SetLinearVelocity_def SetAngularVelocity_def split: option.splits)

lemma UpdateGravity_mass [simp]: "mass (UpdateGravity X s) = mass s"
  by (simp add: UpdateGravity_def Let_def split: option.splits)

lemma RemoveBodyFromWorld_mass [simp]: "mass (RemoveBodyFromWorld s) = mass s"
  by (simp add: RemoveBodyFromWorld_def setRegistered_def emit_def)

lemma clampMass_mass [simp]: "mass (clampMass s) = max (mass s) 0"
  by (simp add: clampMass_def)

lemma AddBodyToWorld_mass:
  assumes "physicsWorld s \<noteq> None" and "AddBodyToWorld X s = Some s'"
  shows "mass s' = max (mass s) 0"
proof -
  obtain world where w: "physicsWorld s = Some world"
    using assms(1) by blast
  show ?thesis
  proof (cases "body s")
    case (Some b)
    show ?thesis
      using assms(2) unfolding AddBodyToWorld_existing [OF w Some]
      by (auto simp: massed_def)
  next
    case None
    show ?thesis
    proof (cases "node s")
      case (Some n)
      show ?thesis
        using assms(2) unfolding AddBodyToWorld_fresh [OF w None Some]
        by (auto simp: massed_def created_def)
    next
      case None
      with \<open>body s = None\<close> assms show ?thesis
        by (simp add: AddBodyToWorld_crash)
    qed
  qed
qed



lemma prepared_existing:
  assumes "physicsWorld s = Some world" and "body s = Some b"
  shows "physicsWorld (RemoveBodyFromWorld (clampMass s)) =
           Some (if inWorld s then world\<lparr>registered := None\<rparr> else world)"
    and "body (RemoveBodyFromWorld (clampMass s)) = Some b"
    and "IsEnabledEffective (RemoveBodyFromWorld (clampMass s)) = IsEnabledEffective s"
    and "mass (RemoveBodyFromWorld (clampMass s)) = max (mass s) 0"
    and "collisionLayer (RemoveBodyFromWorld (clampMass s)) = collisionLayer s"
    and "collisionMask (RemoveBodyFromWorld (clampMass s)) = collisionMask s"
    and "calls (RemoveBodyFromWorld (clampMass s)) =
           calls s @ (if inWorld s then [removeRigidBody] else [])"
    and "compoundShape (RemoveBodyFromWorld (clampMass s)) = compoundShape s"
  using assms
  by (simp_all add: RemoveBodyFromWorld_def setRegistered_def emit_def clampMass_def
      IsEnabledEffective_def)

lemma prepared_fresh:
  assumes "physicsWorld s = Some world"
  shows "physicsWorld (created X n (clampMass s)) = Some world"
    and "body (created X n (clampMass s)) =
           Some (newRigidBody X (max (mass s) 0) CompoundShape (Vector3 0 0 0))"
    and "IsEnabledEffective (created X n (clampMass s)) = IsEnabledEffective s"
    and "mass (created X n (clampMass s)) = max (mass s) 0"
    and "collisionLayer (created X n (clampMass s)) = collisionLayer s"
    and "collisionMask (created X n (clampMass s)) = collisionMask s"
    and "calls (created X n (clampMass s)) = calls s @ createCalls n"
  using assms
  by (simp_all add: created_def clampMass_def IsEnabledEffective_def)

lemma massCalls_no_membership:
  "addRigidBody l m \<notin> set (massCalls s)" "removeRigidBody \<notin> set (massCalls s)"
  by (auto simp: massCalls_def wakeCalls_def)

lemma createCalls_no_membership:
  "addRigidBody l m \<notin> set (createCalls n)" "removeRigidBody \<notin> set (createCalls n)"
  by (auto simp: createCalls_def)

lemma insertCalls_max: "insertCalls (s\<lparr>mass := max (mass s) 0\<rparr>) = insertCalls s"
  by (simp add: insertCalls_def max_def)

subsection \<open>Clamping of negative inputs\<close>

lemma MaxF_max: "MaxF a b = max a b"
  by (simp add: MaxF_def max_def)

lemma AddBodyToWorld_body_mass:
  assumes "physicsWorld s = Some world" and "AddBodyToWorld X s = Some s'"
  shows "\<exists>b'. body s' = Some b' \<and> m_mass b' = max (mass s) 0"
proof (cases "body s")
  case (Some b)
  note p = prepared_existing [OF assms(1) Some]
  show ?thesis
    using assms(2)
    unfolding AddBodyToWorld_existing [OF assms(1) Some] rebuilt_closed [OF p(1) p(2)]
    by (auto simp: p insertedBody_def flagsBody_def gravityBody_def massBody_def)
next
  case None
  show ?thesis
  proof (cases "node s")
    case (Some n)
    note p = prepared_fresh [OF assms(1), of X n]
    have m: "mass (clampMass s) = max (mass s) 0" by simp
    show ?thesis
      using assms(2)
      unfolding AddBodyToWorld_fresh [OF assms(1) None Some] m rebuilt_closed [OF p(1) p(2)]
      by (auto simp: p insertedBody_def flagsBody_def gravityBody_def massBody_def)
  next
    case n: None
    with None assms show ?thesis
      by (simp add: AddBodyToWorld_crash)
  qed
qed

text \<open>
  C9. \<open>SetMass(v)\<close> returns with the stored mass equal to the larger of \<open>v\<close> and zero,
  on every component on which the rebuild it triggers can run (one without physics
  world, or with a body, or with a node). \<open>SetCcdRadius(v)\<close> and
  \<open>SetCcdMotionThreshold(v)\<close> write the larger of \<open>v\<close> and zero into an existing body.
  The rebuild with a physics world leaves the stored mass, and the mass of the body, at
  the larger of the stored mass and zero, and is the rebuild of the component with the
  mass clamped beforehand.
\<close>

theorem C9_clamping:
  assumes "physicsWorld s = None \<or> body s \<noteq> None \<or> node s \<noteq> None"
  shows "(\<exists>s'. SetMass X v s = Some s' \<and> mass s' = max v 0) \<and>
    (body s \<noteq> None \<longrightarrow>
       GetCcdRadius (SetCcdRadius v s) = max v 0 \<and>
       GetCcdMotionThreshold (SetCcdMotionThreshold v s) = max v 0) \<and>
    (physicsWorld s \<noteq> None \<longrightarrow>
       (\<exists>s' b'. AddBodyToWorld X s = Some s' \<and> mass s' = max (mass s) 0 \<and>
          body s' = Some b' \<and> m_mass b' = max (mass s) 0) \<and>
       AddBodyToWorld X s = AddBodyToWorld X (s\<lparr>mass := max (mass s) 0\<rparr>))"
proof (intro conjI impI)
  show "\<exists>s'. SetMass X v s = Some s' \<and> mass s' = max v 0"
  proof (cases "MaxF v 0 = mass s")
    case True
    then show ?thesis by (auto simp: SetMass_def Let_def MaxF_max)
  next
    case False
    let ?s = "s\<lparr>mass := MaxF v 0\<rparr>"
    have "physicsWorld ?s = None \<or> body ?s \<noteq> None \<or> node ?s \<noteq> None"
      using assms by simp
    then obtain s' where a: "AddBodyToWorld X ?s = Some s'"
      using AddBodyToWorld_total by blast
    have "mass s' = max v 0"
    proof (cases "physicsWorld s")
      case None
      then show ?thesis
        using a by (auto simp: AddBodyToWorld_no_world MaxF_max)
    next
      case (Some world)
      then have "physicsWorld ?s \<noteq> None" by simp
      from AddBodyToWorld_mass [OF this a] show ?thesis
        by (simp add: MaxF_max)
    qed
    then show ?thesis
      using False a by (simp add: SetMass_def Let_def emit_def)
  qed
next
  assume "body s \<noteq> None"
  then show "GetCcdRadius (SetCcdRadius v s) = max v 0"
    by (auto simp: GetCcdRadius_def SetCcdRadius_def onBody_def emit_def MaxF_max)
next
  assume "body s \<noteq> None"
  then show "GetCcdMotionThreshold (SetCcdMotionThreshold v s) = max v 0"
    by (auto simp: GetCcdMotionThreshold_def SetCcdMotionThreshold_def onBody_def emit_def
        MaxF_max)
next
  assume w: "physicsWorld s \<noteq> None"
  then obtain world where w': "physicsWorld s = Some world" by blast
  obtain s' where a: "AddBodyToWorld X s = Some s'"
    using AddBodyToWorld_total [OF assms] by blast
  have m: "mass s' = max (mass s) 0"
    by (rule AddBodyToWorld_mass [OF w a])
  from AddBodyToWorld_body_mass [OF w' a] a m
  show "\<exists>s' b'. AddBodyToWorld X s = Some s' \<and> mass s' = max (mass s) 0 \<and>
          body s' = Some b' \<and> m_mass b' = max (mass s) 0"
    by blast
  show "AddBodyToWorld X s = AddBodyToWorld X (s\<lparr>mass := max (mass s) 0\<rparr>)"
  proof (cases "mass s < 0")
    case True
    then show ?thesis
      using w' by (simp add: AddBodyToWorld_def max_def)
  next
    case False
    then have "s\<lparr>mass := max (mass s) 0\<rparr> = s"
      by (simp add: max_def)
    then show ?thesis by simp
  qed
qed

theorem C9_clamping_witness:
  "(physicsWorld falling = None \<or> body falling \<noteq> None \<or> node falling \<noteq> None) \<and>
   map_option mass (SetMass X0 (- 3) falling) = Some 0 \<and>
   GetCcdRadius (SetCcdRadius (- 1) falling) = 0 \<and>
   GetCcdMotionThreshold (SetCcdMotionThreshold (- 1) falling) = 0 \<and>
   map_option mass (AddBodyToWorld X0 (falling\<lparr>mass := - 5\<rparr>)) = Some 0"
proof -
  have b: "body falling \<noteq> None" and w: "physicsWorld falling \<noteq> None"
    by (simp_all add: falling_def resting_def)
  have h: "physicsWorld falling = None \<or> body falling \<noteq> None \<or> node falling \<noteq> None"
    using b by simp
  have h': "physicsWorld (falling\<lparr>mass := - 5\<rparr>) = None \<or>
      body (falling\<lparr>mass := - 5\<rparr>) \<noteq> None \<or> node (falling\<lparr>mass := - 5\<rparr>) \<noteq> None"
    using b by simp
  have 1: "map_option mass (SetMass X0 (- 3) falling) = Some 0"
    using C9_clamping [OF h, of X0 "- 3"] by auto
  have 2: "GetCcdRadius (SetCcdRadius (- 1) falling) = 0"
    and 3: "GetCcdMotionThreshold (SetCcdMotionThreshold (- 1) falling) = 0"
    using C9_clamping [OF h, of X0 "- 1"] b by auto
  have w': "physicsWorld (falling\<lparr>mass := - 5\<rparr>) \<noteq> None"
    using w by simp
  have "\<exists>s'. AddBodyToWorld X0 (falling\<lparr>mass := - 5\<rparr>) = Some s' \<and>
      mass s' = max (mass (falling\<lparr>mass := - 5\<rparr>)) 0"
    using C9_clamping [OF h', of X0 0] w' by blast
  then have 4: "map_option mass (AddBodyToWorld X0 (falling\<lparr>mass := - 5\<rparr>)) = Some 0"
    by auto
  from h 1 2 3 4 show ?thesis by blast
qed

subsection \<open>The full rebuild\<close>

lemma rebuilt_facts:
  assumes "physicsWorld s = Some world" and "body s = Some b"
  shows "\<exists>b'. body (insertBody X (UpdateGravity X (massed X s b))) = Some b' \<and>
           m_mass b' = mass s \<and>
           m_active b' = (m_active b \<or> mass s > 0) \<and>
           m_linearVelocity b' =
             (if IsEnabledEffective s \<and> \<not> mass s > 0 then ZERO else m_linearVelocity b) \<and>
           m_angularVelocity b' =
             (if IsEnabledEffective s \<and> \<not> mass s > 0 then ZERO else m_angularVelocity b)"
    and "calls (insertBody X (UpdateGravity X (massed X s b))) =
           calls s @ massCalls s @ (if IsEnabledEffective s then insertCalls s else [])"
    and "inWorld (insertBody X (UpdateGravity X (massed X s b))) =
           (IsEnabledEffective s \<or> inWorld s)"
    and "readdBody (insertBody X (UpdateGravity X (massed X s b))) =
           (\<not> IsEnabledEffective s \<and> readdBody s)"
    and "map_option registered (physicsWorld (insertBody X (UpdateGravity X (massed X s b)))) =
           Some (if IsEnabledEffective s then Some (collisionLayer s, collisionMask s)
                 else registered world)"
    and "mass (insertBody X (UpdateGravity X (massed X s b))) = mass s"
    and "compoundShape (insertBody X (UpdateGravity X (massed X s b))) = compoundShape s"
    and "shiftedCompoundShape (insertBody X (UpdateGravity X (massed X s b))) = shiftedOf X s"
    and "centerOfMass (insertBody X (UpdateGravity X (massed X s b))) = principalOrigin X s"
  unfolding rebuilt_closed [OF assms]
  using assms(1)
  by (simp_all add: insertedBody_def flagsBody_def gravityBody_def massBody_def)

text \<open>
  C4. With a physics world, on a component that has a body or a node, \<open>AddBodyToWorld\<close>
  returns and the component has a body afterwards. If the entity is enabled, the calls
  made are some calls \<open>pre\<close>, then the insertion of the body into the world with the
  collision layer and mask of the component, then the wake request if the mass is
  positive; if it is not, the two velocity writes, after which both velocities are
  exactly zero. No insertion occurs in \<open>pre\<close>; \<open>pre\<close> starts with the removal from the
  world when a body existed and was in the world, and contains no removal otherwise.
  The component is marked in-world, the pending rebuild is cleared and the world holds
  the body under that layer and mask. If the entity is not enabled, the body is there,
  configured, but no insertion is made, and the component is not marked in-world (unless
  it was so marked without having a body, which no operation brings about).
\<close>

theorem C4_rebuild:
  assumes "physicsWorld s = Some world" and "body s \<noteq> None \<or> node s \<noteq> None"
  shows "\<exists>s' b' pre.
     AddBodyToWorld X s = Some s' \<and> body s' = Some b' \<and>
     m_mass b' = max (mass s) 0 \<and>
     calls s' = calls s @ pre @
       (if IsEnabledEffective s
        then addRigidBody (collisionLayer s) (collisionMask s) #
               (if mass s > 0 then [activate] else [MarkNetworkUpdate, MarkNetworkUpdate])
        else []) \<and>
     (\<forall>l m. addRigidBody l m \<notin> set pre) \<and>
     (body s \<noteq> None \<and> inWorld s \<longrightarrow> take 1 pre = [removeRigidBody]) \<and>
     (\<not> (body s \<noteq> None \<and> inWorld s) \<longrightarrow> removeRigidBody \<notin> set pre) \<and>
     (IsEnabledEffective s \<longrightarrow>
        inWorld s' \<and> \<not> readdBody s' \<and>
        map_option registered (physicsWorld s') =
          Some (Some (collisionLayer s, collisionMask s)) \<and>
        (mass s > 0 \<longrightarrow> m_active b') \<and>
        (\<not> mass s > 0 \<longrightarrow> m_linearVelocity b' = ZERO \<and> m_angularVelocity b' = ZERO)) \<and>
     (\<not> IsEnabledEffective s \<longrightarrow> inWorld s' = (body s = None \<and> inWorld s))"
proof -
  obtain s1 b1 world1 pre0 where
      a: "AddBodyToWorld X s = Some (insertBody X (UpdateGravity X (massed X s1 b1)))"
    and w1: "physicsWorld s1 = Some world1" and b1: "body s1 = Some b1"
    and e1: "IsEnabledEffective s1 = IsEnabledEffective s"
    and m1: "mass s1 = max (mass s) 0"
    and l1: "collisionLayer s1 = collisionLayer s" "collisionMask s1 = collisionMask s"
    and c1: "calls s1 = calls s @ pre0"
    and p0: "\<forall>l m. addRigidBody l m \<notin> set pre0"
      "body s \<noteq> None \<and> inWorld s \<longrightarrow> pre0 = [removeRigidBody]"
      "\<not> (body s \<noteq> None \<and> inWorld s) \<longrightarrow> removeRigidBody \<notin> set pre0"
    and i1: "inWorld s1 = (body s = None \<and> inWorld s)"
  proof (cases "body s")
    case (Some b)
    note p = prepared_existing [OF assms(1) Some]
    have "inWorld (RemoveBodyFromWorld (clampMass s)) = (body s = None \<and> inWorld s)"
      using assms(1) Some
      by (simp add: RemoveBodyFromWorld_def setRegistered_def emit_def clampMass_def)
    then show ?thesis
      using that [OF AddBodyToWorld_existing [OF assms(1) Some] p(1) p(2) p(3) p(4) p(5) p(6) p(7)]
        Some
      by simp
  next
    case None
    then obtain n where n: "node s = Some n"
      using assms(2) by auto
    note p = prepared_fresh [OF assms(1), of X n]
    have "inWorld (created X n (clampMass s)) = (body s = None \<and> inWorld s)"
      using None by (simp add: created_def clampMass_def)
    then show ?thesis
      using that [OF _ p(1) _ p(3) p(4) p(5) p(6) p(7)] AddBodyToWorld_fresh [OF assms(1) None n]
        p(2) None
      by (simp add: createCalls_no_membership)
  qed
  let ?s' = "insertBody X (UpdateGravity X (massed X s1 b1))"
  let ?pre = "pre0 @ massCalls s1"
  note f = rebuilt_facts [OF w1 b1, of X]
  obtain b' where b': "body ?s' = Some b'" "m_mass b' = mass s1"
      "m_active b' = (m_active b1 \<or> mass s1 > 0)"
      "m_linearVelocity b' =
         (if IsEnabledEffective s1 \<and> \<not> mass s1 > 0 then ZERO else m_linearVelocity b1)"
      "m_angularVelocity b' =
         (if IsEnabledEffective s1 \<and> \<not> mass s1 > 0 then ZERO else m_angularVelocity b1)"
    using f(1) by blast
  have pos: "(mass s1 > 0) = (mass s > 0)"
    by (simp add: m1 max_def)
  have ic: "insertCalls s1 =
      addRigidBody (collisionLayer s) (collisionMask s) #
        (if mass s > 0 then [activate] else [MarkNetworkUpdate, MarkNetworkUpdate])"
    by (simp add: insertCalls_def l1 pos)
  have 1: "calls ?s' = calls s @ ?pre @
       (if IsEnabledEffective s
        then addRigidBody (collisionLayer s) (collisionMask s) #
               (if mass s > 0 then [activate] else [MarkNetworkUpdate, MarkNetworkUpdate])
        else [])"
    by (simp add: f(2) c1 e1 ic)
  have 2: "\<forall>l m. addRigidBody l m \<notin> set ?pre"
    using p0(1) by (simp add: massCalls_no_membership)
  have 3: "body s \<noteq> None \<and> inWorld s \<longrightarrow> take 1 ?pre = [removeRigidBody]"
    using p0(2) by simp
  have 4: "\<not> (body s \<noteq> None \<and> inWorld s) \<longrightarrow> removeRigidBody \<notin> set ?pre"
    using p0(3) by (simp add: massCalls_no_membership)
  have 5: "IsEnabledEffective s \<longrightarrow>
        inWorld ?s' \<and> \<not> readdBody ?s' \<and>
        map_option registered (physicsWorld ?s') =
          Some (Some (collisionLayer s, collisionMask s)) \<and>
        (mass s > 0 \<longrightarrow> m_active b') \<and>
        (\<not> mass s > 0 \<longrightarrow> m_linearVelocity b' = ZERO \<and> m_angularVelocity b' = ZERO)"
    by (simp add: f(3) f(4) f(5) e1 l1 b' pos)
  have 6: "\<not> IsEnabledEffective s \<longrightarrow> inWorld ?s' = (body s = None \<and> inWorld s)"
    by (simp add: f(3) e1 i1)
  have 7: "m_mass b' = max (mass s) 0"
    by (simp add: b' m1)
  from a b'(1) 7 1 2 3 4 5 6 show ?thesis
    by blast
qed

lemma attached_facts:
  "physicsWorld attached =
     Some (world0\<lparr>registered := Some (collisionLayer attached, collisionMask attached)\<rparr>)"
  "body attached \<noteq> None" "inWorld attached" "IsEnabledEffective attached" "mass attached = 0"
  by (simp_all add: run_defs)

theorem C4_rebuild_witness:
  "physicsWorld unattached = Some world0 \<and> IsEnabledEffective unattached \<and>
   map_option inWorld (AddBodyToWorld X0 unattached) = Some True \<and>
   map_option GetLinearVelocity (AddBodyToWorld X0 unattached) = Some ZERO \<and>
   body attached \<noteq> None \<and> inWorld attached \<and>
   map_option (\<lambda>s'. take 1 (drop (length (calls attached)) (calls s')))
     (AddBodyToWorld X0 attached) = Some [removeRigidBody] \<and>
   \<not> IsEnabledEffective falling \<and>
   map_option inWorld (AddBodyToWorld X0 falling) = Some False"
proof -
  have u: "physicsWorld unattached = Some world0" "body unattached \<noteq> None \<or> node unattached \<noteq> None"
      "IsEnabledEffective unattached" "\<not> mass unattached > 0"
    by (simp_all add: unattached_def RigidBody_new_def IsEnabledEffective_def node0_def)
  have f: "physicsWorld falling = Some world0" "body falling \<noteq> None \<or> node falling \<noteq> None"
      "\<not> IsEnabledEffective falling" "body falling \<noteq> None" "\<not> inWorld falling"
    by (simp_all add: falling_def resting_def RigidBody_new_def IsEnabledEffective_def)
  have a: "body attached \<noteq> None \<or> node attached \<noteq> None"
    using attached_facts(2) by simp
  have 1: "map_option inWorld (AddBodyToWorld X0 unattached) = Some True \<and>
      map_option GetLinearVelocity (AddBodyToWorld X0 unattached) = Some ZERO"
    using C4_rebuild [OF u(1) u(2), of X0] u(3) u(4)
    by (auto simp: GetLinearVelocity_def)
  have 2: "map_option (\<lambda>s'. take 1 (drop (length (calls attached)) (calls s')))
     (AddBodyToWorld X0 attached) = Some [removeRigidBody]"
    using C4_rebuild [OF attached_facts(1) a, of X0] attached_facts(2) attached_facts(3)
    by auto
  have 3: "map_option inWorld (AddBodyToWorld X0 falling) = Some False"
    using C4_rebuild [OF f(1) f(2), of X0] f(3) f(4) f(5)
    by auto
  from u f 1 2 3 attached_facts show ?thesis by blast
qed

subsection \<open>Changing the collision filter\<close>

lemma setFilter_unfold:
  "setFilter X c s =
     (if changesFilter c s
      then map_option (emit MarkNetworkUpdate) (AddBodyToWorld X (filtered c s))
      else Some s)"
  by (cases c)
     (simp_all add: SetCollisionLayer_def SetCollisionMask_def SetCollisionLayerAndMask_def)

lemma filtered_frame:
  "body (filtered c s) = body s" "physicsWorld (filtered c s) = physicsWorld s"
  "mass (filtered c s) = mass s" "inWorld (filtered c s) = inWorld s"
  "IsEnabledEffective (filtered c s) = IsEnabledEffective s"
  by (cases c; simp add: IsEnabledEffective_def)+

lemmas filter_defs = SetCollisionLayer_def SetCollisionMask_def SetMass_def MaxF_def
  moving_def dozing_def GetLinearVelocity_def IsActive_def

text \<open>
  C7, as stated, fails. A body of mass zero that is in the world and moves with velocity
  \<open>(1, 0, 0)\<close> has velocity zero after \<open>SetCollisionLayer\<close>; a body of mass one that is
  in the world and asleep is awake after \<open>SetCollisionMask\<close>.
\<close>

theorem C7_counterexample:
  "body moving \<noteq> None \<and> inWorld moving \<and> GetLinearVelocity moving = Vector3 1 0 0 \<and>
   map_option GetLinearVelocity (SetCollisionLayer X0 2 moving) = Some (Vector3 0 0 0) \<and>
   body dozing \<noteq> None \<and> inWorld dozing \<and> \<not> IsActive dozing \<and>
   map_option IsActive (SetCollisionMask X0 3 dozing) = Some True"
  by (simp add: filter_defs run_defs)

text \<open>
  C7, amended. On an enabled component with a physics world whose body exists and is in
  the world, a setter of the collision layer, the collision mask or both returns; if it
  changes neither value the component is unchanged. Otherwise, with positive mass the
  linear and the angular velocity of the body are what they were and the body is awake
  afterwards, whatever its activation state was; with mass zero both velocities are
  zero afterwards and the activation state is what it was.
\<close>

theorem C7_filter_change:
  assumes "body s = Some b" and "inWorld s" and "physicsWorld s = Some world"
    and "IsEnabledEffective s"
  shows "\<exists>s' b'. setFilter X c s = Some s' \<and> body s' = Some b' \<and>
     (\<not> changesFilter c s \<longrightarrow> s' = s) \<and>
     (changesFilter c s \<longrightarrow>
        (mass s > 0 \<longrightarrow>
           m_linearVelocity b' = m_linearVelocity b \<and>
           m_angularVelocity b' = m_angularVelocity b \<and> m_active b') \<and>
        (\<not> mass s > 0 \<longrightarrow>
           m_linearVelocity b' = ZERO \<and> m_angularVelocity b' = ZERO \<and>
           m_active b' = m_active b))"
proof (cases "changesFilter c s")
  case False
  then show ?thesis
    using assms(1) by (simp add: setFilter_unfold)
next
  case True
  let ?f = "filtered c s"
  have w: "physicsWorld ?f = Some world" and b: "body ?f = Some b"
    using assms by (simp_all add: filtered_frame)
  note p = prepared_existing [OF w b]
  let ?s1 = "RemoveBodyFromWorld (clampMass ?f)"
  let ?s' = "insertBody X (UpdateGravity X (massed X ?s1 b))"
  have a: "AddBodyToWorld X ?f = Some ?s'"
    by (rule AddBodyToWorld_existing [OF w b])
  have e: "IsEnabledEffective ?s1"
    using assms(4) by (simp add: p filtered_frame)
  have m: "mass ?s1 = max (mass s) 0"
    by (simp add: p filtered_frame)
  obtain b' where b': "body ?s' = Some b'"
      "m_active b' = (m_active b \<or> mass ?s1 > 0)"
      "m_linearVelocity b' =
         (if IsEnabledEffective ?s1 \<and> \<not> mass ?s1 > 0 then ZERO else m_linearVelocity b)"
      "m_angularVelocity b' =
         (if IsEnabledEffective ?s1 \<and> \<not> mass ?s1 > 0 then ZERO else m_angularVelocity b)"
    using rebuilt_facts(1) [OF p(1) p(2), of X] by blast
  have "setFilter X c s = Some (emit MarkNetworkUpdate ?s')"
    using True a by (simp add: setFilter_unfold)
  moreover have "body (emit MarkNetworkUpdate ?s') = Some b'"
    using b'(1) by (simp add: emit_def)
  moreover have "mass s > 0 \<longrightarrow>
           m_linearVelocity b' = m_linearVelocity b \<and>
           m_angularVelocity b' = m_angularVelocity b \<and> m_active b'"
    by (simp add: b' m e filtered_frame)
  moreover have "\<not> mass s > 0 \<longrightarrow>
           m_linearVelocity b' = ZERO \<and> m_angularVelocity b' = ZERO \<and>
           m_active b' = m_active b"
    by (simp add: b' m e max_def filtered_frame)
  ultimately show ?thesis
    using True by blast
qed

theorem C7_filter_change_witness:
  "body moving \<noteq> None \<and> inWorld moving \<and> physicsWorld moving \<noteq> None \<and>
   IsEnabledEffective moving \<and> changesFilter (Layer 2) moving \<and> \<not> mass moving > 0 \<and>
   map_option GetAngularVelocity (setFilter X0 (Layer 2) moving) = Some ZERO \<and>
   changesFilter (Mask 3) dozing \<and> mass dozing > 0 \<and>
   map_option IsActive (setFilter X0 (Mask 3) dozing) = Some True"
proof -
  have mv: "body moving = Some (the (body moving))" "inWorld moving"
      "physicsWorld moving = Some (the (physicsWorld moving))" "IsEnabledEffective moving"
      "changesFilter (Layer 2) moving" "\<not> mass moving > 0"
    by (simp_all add: filter_defs run_defs)
  have dz: "body dozing = Some (the (body dozing))" "inWorld dozing"
      "physicsWorld dozing = Some (the (physicsWorld dozing))" "IsEnabledEffective dozing"
      "changesFilter (Mask 3) dozing" "mass dozing > 0"
    by (simp_all add: filter_defs run_defs)
  have 1: "map_option GetAngularVelocity (setFilter X0 (Layer 2) moving) = Some ZERO"
    using C7_filter_change [OF mv(1) mv(2) mv(3) mv(4), of X0 "Layer 2"] mv(5) mv(6)
    by (auto simp: GetAngularVelocity_def)
  have 2: "map_option IsActive (setFilter X0 (Mask 3) dozing) = Some True"
    using C7_filter_change [OF dz(1) dz(2) dz(3) dz(4), of X0 "Mask 3"] dz(5) dz(6)
    by (auto simp: IsActive_def)
  from mv dz 1 2 show ?thesis by auto
qed

subsection \<open>The shifted aggregate\<close>

lemma untouched_refl [simp]: "untouched s s"
  by (simp add: untouched_def)

lemma untouched_trans: "untouched s s1 \<Longrightarrow> untouched s1 s2 \<Longrightarrow> untouched s s2"
  by (simp add: untouched_def)

lemma untouched_emit [simp]: "untouched s (emit c s)"
  by (simp add: untouched_def emit_def)

lemma untouched_Activate [simp]: "untouched s (Activate s)"
  by (simp add: untouched_def Activate_def emit_def split: option.splits)

lemma untouched_modifyBody [simp]: "untouched s (modifyBody f s)"
  by (simp add: untouched_def modifyBody_def split: option.splits)

lemma untouched_onBody [simp]: "untouched s (onBody f s)"
  by (simp add: untouched_def onBody_def emit_def split: option.splits)

lemma untouched_solve [simp]: "untouched s (solve X c s)"
  by (simp add: untouched_def solve_def emit_def split: option.splits)

lemma untouched_SetPosition [simp]: "untouched s (SetPosition X p s)"
  by (simp add: untouched_def SetPosition_def Let_def Activate_def emit_def split: option.splits)

lemma untouched_SetRotation [simp]: "untouched s (SetRotation X q s)"
  by (simp add: untouched_def SetRotation_def Let_def Activate_def emit_def split: option.splits)

lemma untouched_SetTransform [simp]: "untouched s (SetTransform X p q s)"
  by (simp add: untouched_def SetTransform_def Let_def Activate_def emit_def split: option.splits)

lemma untouched_SetLinearVelocity [simp]: "untouched s (SetLinearVelocity v s)"
  by (simp add: untouched_def SetLinearVelocity_def Let_def Activate_def emit_def
      split: option.splits)

lemma untouched_SetAngularVelocity [simp]: "untouched s (SetAngularVelocity v s)"
  by (simp add: untouched_def SetAngularVelocity_def Let_def Activate_def emit_def
      split: option.splits)

lemma untouched_UpdateGravity [simp]: "untouched s (UpdateGravity X s)"
  by (simp add: untouched_def UpdateGravity_def Let_def split: option.splits)

lemma untouched_RemoveBodyFromWorld [simp]: "untouched s (RemoveBodyFromWorld s)"
  by (simp add: untouched_def RemoveBodyFromWorld_def setRegistered_def emit_def)

lemma untouched_apply_to [simp]: "untouched s (apply_to X a s)"
proof (cases "body s \<noteq> None \<and> input a \<noteq> ZERO")
  case True
  then have "apply_to X a s = solve X (solverInput s a) (Activate s)"
    by (simp add: apply_to_nonzero)
  then show ?thesis
    using untouched_trans [OF untouched_Activate untouched_solve] by simp
next
  case False
  then have "apply_to X a s = s"
    by (auto simp: apply_to_zero apply_to_None)
  then show ?thesis by simp
qed

lemma untouched_setters [simp]:
  "untouched s (SetLinearFactor v s)" "untouched s (SetAngularFactor v s)"
  "untouched s (SetLinearRestThreshold r s)" "untouched s (SetAngularRestThreshold r s)"
  "untouched s (SetLinearDamping r s)" "untouched s (SetAngularDamping r s)"
  "untouched s (SetFriction r s)" "untouched s (SetRollingFriction r s)"
  "untouched s (SetRestitution r s)" "untouched s (SetContactProcessingThreshold r s)"
  "untouched s (SetCcdRadius r s)" "untouched s (SetCcdMotionThreshold r s)"
  "untouched s (SetCollisionEventMode m s)" "untouched s (ResetForces X s)"
  "untouched s (AddConstraint c s)" "untouched s (OnSetAttribute a s)"
  by (simp_all add: SetLinearFactor_def SetAngularFactor_def SetLinearRestThreshold_def
      SetAngularRestThreshold_def SetLinearDamping_def SetAngularDamping_def SetFriction_def
      SetRollingFriction_def SetRestitution_def SetContactProcessingThreshold_def
      SetCcdRadius_def SetCcdMotionThreshold_def Let_def ResetForces_def)
     (simp_all add: untouched_def SetCollisionEventMode_def emit_def AddConstraint_def,
      cases a, simp_all)

lemma untouched_gravity_setters [simp]:
  "untouched s (SetUseGravity X e s)" "untouched s (SetGravityOverride X g s)"
  by (simp_all add: untouched_def SetUseGravity_def SetGravityOverride_def emit_def
      UpdateGravity_def Let_def split: option.splits)

lemma untouched_RemoveConstraint [simp]: "untouched s (RemoveConstraint c s)"
  by (simp add: untouched_def RemoveConstraint_def Activate_def emit_def split: option.splits)

lemma untouched_handlers [simp]:
  "untouched s (HandleTargetPosition X p s)" "untouched s (HandleTargetRotation X q s)"
  "untouched s (snd (getWorldTransform X s))"
  by (simp_all add: HandleTargetPosition_def HandleTargetRotation_def)
     (simp add: untouched_def getWorldTransform_def Let_def split: option.splits)

lemma untouched_ApplyWorldTransform:
  "ApplyWorldTransform p q s = Some s' \<Longrightarrow> untouched s s'"
  by (auto simp: ApplyWorldTransform_def untouched_def Let_def emit_def
      split: option.splits if_splits)

lemma untouched_setWorldTransform:
  "setWorldTransform X t s = Some s' \<Longrightarrow> untouched s s'"
  by (auto simp: setWorldTransform_def Let_def emit_def untouched_def
      split: option.splits if_splits dest!: untouched_ApplyWorldTransform)

lemmas position_fields = untouched_SetPosition [unfolded untouched_def]
  untouched_SetRotation [unfolded untouched_def]

lemma untouched_OnMarkedDirty:
  "OnMarkedDirty X threaded s = Some s' \<Longrightarrow> untouched s s'"
  by (auto simp: OnMarkedDirty_def Let_def untouched_def position_fields emit_def
      split: if_splits option.splits)

lemma rebuiltOrKept_untouched: "untouched s s' \<Longrightarrow> rebuiltOrKept s s'"
  by (auto simp: untouched_def rebuiltOrKept_def)

lemma rebuiltOrKept_before: "untouched s s1 \<Longrightarrow> rebuiltOrKept s1 s' \<Longrightarrow> rebuiltOrKept s s'"
  by (auto simp: untouched_def rebuiltOrKept_def)

lemma rebuiltOrKept_after: "rebuiltOrKept s s1 \<Longrightarrow> untouched s1 s' \<Longrightarrow> rebuiltOrKept s s'"
  by (auto simp: untouched_def rebuiltOrKept_def mirrored_def)

lemma UpdateMass_mirrored:
  assumes "body s = Some b" and "UpdateMass X s = Some s'"
  shows "mirrored s'" and "compoundShape s' = compoundShape s" and "body s' \<noteq> None"
  using UpdateMass_closed [OF assms] by (simp_all add: mirrored_def shiftedOf_def)

lemma rebuiltOrKept_UpdateMass: "UpdateMass X s = Some s' \<Longrightarrow> rebuiltOrKept s s'"
proof (cases "body s")
  case None
  assume "UpdateMass X s = Some s'"
  with None have "s' = s" by (simp add: UpdateMass_no_body)
  then show ?thesis by (simp add: rebuiltOrKept_untouched)
next
  case (Some b)
  assume "UpdateMass X s = Some s'"
  from UpdateMass_mirrored(1) [OF Some this] show ?thesis
    by (simp add: rebuiltOrKept_def)
qed

lemma AddBodyToWorld_mirrored:
  assumes "physicsWorld s \<noteq> None" and "AddBodyToWorld X s = Some s'"
  shows "mirrored s'" and "body s' \<noteq> None"
proof -
  obtain world where w: "physicsWorld s = Some world"
    using assms(1) by blast
  have "mirrored s' \<and> body s' \<noteq> None"
  proof (cases "body s")
    case (Some b)
    note p = prepared_existing [OF w Some]
    note f = rebuilt_facts [OF p(1) p(2), of X]
    show ?thesis
      using assms(2) f(1) f(7) f(8) f(9)
      unfolding AddBodyToWorld_existing [OF w Some]
      by (auto simp: mirrored_def shiftedOf_def)
  next
    case None
    show ?thesis
    proof (cases "node s")
      case (Some n)
      note p = prepared_fresh [OF w, of X n]
      have m: "mass (clampMass s) = max (mass s) 0" by simp
      note f = rebuilt_facts [OF p(1) p(2), of X]
      show ?thesis
        using assms(2) f(1) f(7) f(8) f(9)
        unfolding AddBodyToWorld_fresh [OF w None Some] m
        by (auto simp: mirrored_def shiftedOf_def)
    next
      case n: None
      with None assms show ?thesis
        by (simp add: AddBodyToWorld_crash)
    qed
  qed
  then show "mirrored s'" and "body s' \<noteq> None" by simp_all
qed

lemma rebuiltOrKept_AddBodyToWorld: "AddBodyToWorld X s = Some s' \<Longrightarrow> rebuiltOrKept s s'"
proof (cases "physicsWorld s")
  case None
  assume "AddBodyToWorld X s = Some s'"
  with None have "s' = s" by (simp add: AddBodyToWorld_no_world)
  then show ?thesis by (simp add: rebuiltOrKept_untouched)
next
  case (Some world)
  assume "AddBodyToWorld X s = Some s'"
  with Some AddBodyToWorld_mirrored(1) [of s X s'] show ?thesis
    by (simp add: rebuiltOrKept_def)
qed

text \<open>A setter that changes one member outside the aggregates and then rebuilds.\<close>

lemma rebuiltOrKept_rebuild:
  assumes "untouched s s1" and "map_option (emit MarkNetworkUpdate) (AddBodyToWorld X s1) = Some s'"
  shows "rebuiltOrKept s s'"
proof -
  from assms(2) obtain s2 where a: "AddBodyToWorld X s1 = Some s2" and s': "s' = emit MarkNetworkUpdate s2"
    by auto
  have "rebuiltOrKept s s2"
    using rebuiltOrKept_before [OF assms(1) rebuiltOrKept_AddBodyToWorld [OF a]] .
  then show ?thesis
    unfolding s' by (rule rebuiltOrKept_after) simp
qed

lemma rebuiltOrKept_refl [simp]: "rebuiltOrKept s s"
  by (simp add: rebuiltOrKept_untouched)

lemma rebuiltOrKept_notify:
  assumes "untouched s s1" and "map_option (emit c) (AddBodyToWorld X s1) = Some s'"
  shows "rebuiltOrKept s s'"
proof -
  from assms(2) obtain s2 where a: "AddBodyToWorld X s1 = Some s2" and s': "s' = emit c s2"
    by auto
  have "rebuiltOrKept s s2"
    using rebuiltOrKept_before [OF assms(1) rebuiltOrKept_AddBodyToWorld [OF a]] .
  then show ?thesis
    unfolding s' by (rule rebuiltOrKept_after) simp
qed

lemma untouched_filtered [simp]: "untouched s (filtered c s)"
  by (cases c) (simp_all add: untouched_def)

lemma rebuiltOrKept_if:
  assumes "(if c then map_option (emit k) (AddBodyToWorld X s1) else Some s) = Some s'"
    and "untouched s s1"
  shows "rebuiltOrKept s s'"
proof (cases c)
  case True
  with assms(1) have "map_option (emit k) (AddBodyToWorld X s1) = Some s'" by simp
  from rebuiltOrKept_notify [OF assms(2) this] show ?thesis .
next
  case False
  with assms(1) show ?thesis by simp
qed

lemma rebuiltOrKept_setters:
  "SetMass X m s = Some s' \<Longrightarrow> rebuiltOrKept s s'"
  "SetKinematic X e s = Some s' \<Longrightarrow> rebuiltOrKept s s'"
  "SetPhantom X e s = Some s' \<Longrightarrow> rebuiltOrKept s s'"
  "setFilter X c s = Some s' \<Longrightarrow> rebuiltOrKept s s'"
proof -
  show "SetMass X m s = Some s' \<Longrightarrow> rebuiltOrKept s s'"
    unfolding SetMass_def Let_def by (erule rebuiltOrKept_if) (simp add: untouched_def)
  show "SetKinematic X e s = Some s' \<Longrightarrow> rebuiltOrKept s s'"
    unfolding SetKinematic_def by (erule rebuiltOrKept_if) (simp add: untouched_def)
  show "SetPhantom X e s = Some s' \<Longrightarrow> rebuiltOrKept s s'"
    unfolding SetPhantom_def by (erule rebuiltOrKept_if) (simp add: untouched_def)
  show "setFilter X c s = Some s' \<Longrightarrow> rebuiltOrKept s s'"
    unfolding setFilter_unfold by (erule rebuiltOrKept_if) simp
qed

lemma rebuiltOrKept_conditional:
  "ReAddBodyToWorld X s = Some s' \<Longrightarrow> rebuiltOrKept s s'"
  "ApplyAttributes X s = Some s' \<Longrightarrow> rebuiltOrKept s s'"
  "OnSetEnabled X s = Some s' \<Longrightarrow> rebuiltOrKept s s'"
  by (auto simp: ReAddBodyToWorld_def ApplyAttributes_def OnSetEnabled_def Let_def
      rebuiltOrKept_untouched split: if_splits dest: rebuiltOrKept_AddBodyToWorld)

lemma rebuiltOrKept_SetEnabled: "SetEnabled X e s = Some s' \<Longrightarrow> rebuiltOrKept s s'"
proof -
  assume a: "SetEnabled X e s = Some s'"
  show ?thesis
  proof (cases "e \<noteq> enabled s")
    case False
    with a show ?thesis by (simp add: SetEnabled_def)
  next
    case True
    with a obtain s2 where o: "OnSetEnabled X (s\<lparr>enabled := e\<rparr>) = Some s2"
      and s': "s' = emit MarkNetworkUpdate s2"
      by (auto simp: SetEnabled_def)
    have u: "untouched s (s\<lparr>enabled := e\<rparr>)"
      by (simp add: untouched_def)
    have "rebuiltOrKept s s2"
      using rebuiltOrKept_before [OF u rebuiltOrKept_conditional(3) [OF o]] .
    then show ?thesis
      unfolding s' by (rule rebuiltOrKept_after) simp
  qed
qed

lemma rebuiltOrKept_SetNode: "SetNode X nd scene isRoot s = Some s' \<Longrightarrow> rebuiltOrKept s s'"
proof -
  assume a: "SetNode X nd scene isRoot s = Some s'"
  let ?s0 = "s\<lparr>node := nd\<rparr>"
  have u0: "untouched s ?s0"
    by (simp add: untouched_def)
  show ?thesis
  proof (cases nd)
    case None
    with a have "s' = ?s0" by (simp add: SetNode_def OnNodeSet_def)
    with u0 show ?thesis by (simp add: rebuiltOrKept_untouched)
  next
    case (Some n)
    show ?thesis
    proof (cases scene)
      case None
      with a Some have "untouched s s'"
        by (auto simp: SetNode_def OnNodeSet_def untouched_def emit_def)
      then show ?thesis by (rule rebuiltOrKept_untouched)
    next
      case (Some world)
      let ?s1 = "if isRoot then emit (Log ''should not be created to the root scene node'') ?s0
                 else ?s0"
      let ?s2 = "?s1\<lparr>physicsWorld := world\<rparr>"
      let ?s3 = "if physicsWorld ?s2 \<noteq> None then emit AddRigidBody ?s2
                 else emit (Log ''No physics world component in scene'') ?s2"
      have u: "untouched s ?s3"
        by (simp add: untouched_def emit_def)
      have "map_option (emit AddListener) (AddBodyToWorld X ?s3) = Some s'"
        using a Some \<open>nd = Some n\<close>
        by (cases isRoot; cases world) (simp_all add: SetNode_def OnNodeSet_def Let_def)
      from rebuiltOrKept_notify [OF u this] show ?thesis .
    qed
  qed
qed

lemma rebuiltOrKept_ReleaseBody: "rebuiltOrKept s (ReleaseBody s)"
  by (simp add: rebuiltOrKept_def ReleaseBody_def Let_def foldl_calls RemoveBodyFromWorld_def
      setRegistered_def emit_def)

lemma rebuiltOrKept_shapes:
  "ShapeChanged X c s = Some s' \<Longrightarrow> rebuiltOrKept s s'"
  "ShapeReleased X sh s = Some s' \<Longrightarrow> rebuiltOrKept s s'"
proof -
  have gen: "rebuiltOrKept s s'"
    if "UpdateMass X (s\<lparr>compoundShape := cs\<rparr>) = Some s'" for cs
  proof (cases "body s")
    case None
    with that have "s' = s\<lparr>compoundShape := cs\<rparr>"
      by (simp add: UpdateMass_no_body)
    with None show ?thesis by (simp add: rebuiltOrKept_def)
  next
    case (Some b)
    then have "body (s\<lparr>compoundShape := cs\<rparr>) = Some b" by simp
    from UpdateMass_mirrored(1) [OF this that] show ?thesis
      by (simp add: rebuiltOrKept_def)
  qed
  show "ShapeChanged X c s = Some s' \<Longrightarrow> rebuiltOrKept s s'"
    using gen by (simp add: ShapeChanged_def NotifyRigidBody_def)
  show "ShapeReleased X sh s = Some s' \<Longrightarrow> rebuiltOrKept s s'"
    using gen by (simp add: ShapeReleased_def)
qed

lemma exec_rebuiltOrKept: "exec X op s = Some s' \<Longrightarrow> rebuiltOrKept s s'"
  by (cases op)
     (auto simp: rebuiltOrKept_untouched rebuiltOrKept_ReleaseBody
        dest: rebuiltOrKept_setters rebuiltOrKept_conditional rebuiltOrKept_SetEnabled
          rebuiltOrKept_SetNode rebuiltOrKept_UpdateMass rebuiltOrKept_AddBodyToWorld
          rebuiltOrKept_shapes untouched_setWorldTransform untouched_ApplyWorldTransform
          untouched_OnMarkedDirty)

lemma mirror_kept:
  "body s \<noteq> None \<longrightarrow> mirrored s \<Longrightarrow> rebuiltOrKept s s' \<Longrightarrow> body s' \<noteq> None \<longrightarrow> mirrored s'"
  by (auto simp: rebuiltOrKept_def mirrored_def)

lemma run_mirrored:
  "body s \<noteq> None \<longrightarrow> mirrored s \<Longrightarrow> run X ops s = Some s' \<Longrightarrow>
   body s' \<noteq> None \<longrightarrow> mirrored s'"
proof (induction ops arbitrary: s)
  case Nil
  then show ?case by simp
next
  case (Cons op ops)
  from Cons.prems(2) obtain s1 where e: "exec X op s = Some s1" and r: "run X ops s1 = Some s'"
    by (auto split: option.splits)
  have "body s1 \<noteq> None \<longrightarrow> mirrored s1"
    using mirror_kept [OF Cons.prems(1) exec_rebuiltOrKept [OF e]] .
  from Cons.IH [OF this r] show ?case .
qed

lemma mirrored_children:
  assumes "mirrored s"
  shows "length (shiftedCompoundShape s) = length (compoundShape s)"
    and "map m_childShape (shiftedCompoundShape s) = map m_childShape (compoundShape s)"
    and "i < length (compoundShape s) \<Longrightarrow>
         origin (m_transform (shiftedCompoundShape s ! i)) =
           vsub (origin (m_transform (compoundShape s ! i))) (centerOfMass s) \<and>
         rotation (m_transform (shiftedCompoundShape s ! i)) =
           rotation (m_transform (compoundShape s ! i))"
  using assms by (simp_all add: mirrored_def shiftChild_def comp_def)


lemma run_example:
  "run X0 [DoShapeChanged \<lparr>m_transform = \<lparr>origin = Vector3 3 0 0, rotation = IDENTITY\<rparr>,
                            m_childShape = 2\<rparr>,
           DoSetNode (Some node0) (Some (Some world0)) False,
           DoSetFriction 1] RigidBody_new \<noteq> None"
  by (simp add: ShapeChanged_def SetFriction_def onBody_def run_defs split: option.splits)


subsection \<open>The transform bridge\<close>

lemma vsub_ZERO: "isFloatVector p \<Longrightarrow> vsub p ZERO = p"
  by (cases p) (simp add: ZERO_def fsub_def isFloat_def)

lemma vadd_ZERO: "isFloatVector p \<Longrightarrow> vadd p ZERO = p"
  by (cases p) (simp add: ZERO_def fadd_def isFloat_def)

lemma setWorldTransform_closed:
  assumes "node s = Some n" "\<not> parentRigidBody n"
    "\<not> (hasSmoothedTransform s \<and> nodeSmoothedTransform n)" "physicsWorld s = Some w"
  shows "setWorldTransform X \<lparr>origin = p, rotation = r\<rparr> s =
    Some (s\<lparr>node := Some (n\<lparr>worldPosition := vsub p (rotate X r (centerOfMass s)),
                              worldRotation := r\<rparr>),
            lastPosition := vsub p (rotate X r (centerOfMass s)), lastRotation := r,
            physicsWorld := Some (w\<lparr>applyingTransforms := False\<rparr>),
            calls := calls s @ [MarkNetworkUpdate]\<rparr>)"
  using assms by (auto simp: setWorldTransform_def ApplyWorldTransform_def Let_def emit_def)

lemma float_cancellation:
  "roundToFloat (1 / 2 ^ 27 - 1) = - 1" "roundToFloat (- (134217727 / 134217728)) = - 1"
  "roundToFloat (1 / 134217728) = 1 / 134217728"
  by (simp_all add: roundToFloat_def ulpOf.simps roundHalfEven_def)

text \<open>
  C1, as stated, fails: the round trip does not give back the position exactly. For
  the component attached to a node with one shape at \<open>(1, 0, 0)\<close>, the center of mass
  is \<open>(1, 0, 0)\<close>; writing the position \<open>(2^-27, 0, 0)\<close> with the identity rotation
  stores the node position \<open>(-1, 0, 0)\<close>, since \<open>2^-27 - 1\<close> rounds to \<open>-1\<close>, and
  the read returns \<open>(0, 0, 0)\<close>.
\<close>

theorem C1_counterexample:
  "map_option parentRigidBody (node attached) = Some False \<and>
   \<not> hasSmoothedTransform attached \<and>
   centerOfMass attached = Vector3 1 0 0 \<and>
   isFloatVector nearOrigin \<and>
   map_option (\<lambda>s'. map_option worldPosition (node s'))
     (setWorldTransform X0 \<lparr>origin = nearOrigin, rotation = IDENTITY\<rparr> attached) =
     Some (Some (Vector3 (- 1) 0 0)) \<and>
   map_option (\<lambda>s'. fst (getWorldTransform X0 s'))
     (setWorldTransform X0 \<lparr>origin = nearOrigin, rotation = IDENTITY\<rparr> attached) =
     Some (Some \<lparr>origin = Vector3 0 0 0, rotation = IDENTITY\<rparr>) \<and>
   nearOrigin \<noteq> Vector3 0 0 0"
  by (simp add: nearOrigin_def setWorldTransform_def ApplyWorldTransform_def
      getWorldTransform_def isFloat_def float_cancellation run_defs)

text \<open>
  C1, amended. If the owning node exists, no parent node other than the scene root
  carries a rigid body, no smoothing collaborator is active and the component is in a
  physics world, then \<open>setWorldTransform\<close> of \<open>(p, r)\<close> stores the node position
  \<open>p - r * centerOfMass\<close> and the node rotation \<open>r\<close>, and \<open>getWorldTransform\<close> after it
  returns \<open>(p - r * centerOfMass) + r * centerOfMass\<close> and \<open>r\<close>, each operation a
  \<open>float\<close> operation: the rotation comes back exactly, the position up to the rounding
  of the two operations. The position comes back exactly when \<open>r * centerOfMass\<close> is
  the zero vector.
\<close>

theorem C1_round_trip:
  assumes "node s = Some n" "\<not> parentRigidBody n"
    "\<not> (hasSmoothedTransform s \<and> nodeSmoothedTransform n)" "physicsWorld s \<noteq> None"
  shows "\<exists>s'. setWorldTransform X \<lparr>origin = p, rotation = r\<rparr> s = Some s' \<and>
     map_option worldPosition (node s') = Some (vsub p (rotate X r (centerOfMass s))) \<and>
     map_option worldRotation (node s') = Some r \<and>
     fst (getWorldTransform X s') =
       Some \<lparr>origin = vadd (vsub p (rotate X r (centerOfMass s))) (rotate X r (centerOfMass s)),
             rotation = r\<rparr> \<and>
     (rotate X r (centerOfMass s) = ZERO \<and> isFloatVector p \<longrightarrow>
        fst (getWorldTransform X s') = Some \<lparr>origin = p, rotation = r\<rparr>)"
proof -
  obtain w where w: "physicsWorld s = Some w"
    using assms(4) by blast
  note c = setWorldTransform_closed [OF assms(1-3) w, of X p r]
  show ?thesis
    unfolding c
    by (simp add: getWorldTransform_def vsub_ZERO vadd_ZERO)
qed

theorem C1_round_trip_witness:
  "node unattached = Some node0 \<and> \<not> parentRigidBody node0 \<and>
   \<not> (hasSmoothedTransform unattached \<and> nodeSmoothedTransform node0) \<and>
   physicsWorld unattached \<noteq> None \<and>
   rotate X0 IDENTITY (centerOfMass unattached) = ZERO \<and> isFloatVector (Vector3 3 0 0) \<and>
   map_option (\<lambda>s'. fst (getWorldTransform X0 s'))
     (setWorldTransform X0 \<lparr>origin = Vector3 3 0 0, rotation = IDENTITY\<rparr> unattached) =
     Some (Some \<lparr>origin = Vector3 3 0 0, rotation = IDENTITY\<rparr>)"
proof -
  have h: "node unattached = Some node0" "\<not> parentRigidBody node0"
      "\<not> (hasSmoothedTransform unattached \<and> nodeSmoothedTransform node0)"
      "physicsWorld unattached \<noteq> None"
    by (simp_all add: unattached_def RigidBody_new_def node0_def)
  have z: "rotate X0 IDENTITY (centerOfMass unattached) = ZERO"
    by (simp add: unattached_def RigidBody_new_def X0_def IDENTITY_def ZERO_def float_defs)
  have f: "isFloatVector (Vector3 3 0 0)"
    by (simp add: isFloat_def float_values)
  obtain s' where
    "setWorldTransform X0 \<lparr>origin = Vector3 3 0 0, rotation = IDENTITY\<rparr> unattached = Some s'"
    "fst (getWorldTransform X0 s') = Some \<lparr>origin = Vector3 3 0 0, rotation = IDENTITY\<rparr>"
    using C1_round_trip [OF h, of X0 "Vector3 3 0 0" IDENTITY] z f by blast
  with h z f show ?thesis by simp
qed

end
